theory Spec2Isabelle
  imports Main
begin

section \<open>JavaScript values\<close>

text \<open>
  Entities of the remote API are JSON objects.  An object is a map from field names to
  values; a field that is absent (\<open>undefined\<close>, or removed by \<open>delete\<close>) is \<open>None\<close>.
\<close>

datatype json =
    JNull
  | JBool bool
  | JNum int
  | JStr string
  | JArr "json list"
  | JObj "(string \<times> json) list"

type_synonym entity = "string \<Rightarrow> json option"

text \<open>Truthiness, as \<open>if (x)\<close> and \<open>x && y\<close> read their operands.\<close>

fun truthy_json :: "json \<Rightarrow> bool" where
  "truthy_json JNull = False"
| "truthy_json (JBool b) = b"
| "truthy_json (JNum n) = (n \<noteq> 0)"
| "truthy_json (JStr s) = (s \<noteq> [])"
| "truthy_json (JArr xs) = True"
| "truthy_json (JObj kvs) = True"

definition truthy_str :: "string option \<Rightarrow> bool" where
  "truthy_str s = (case s of None \<Rightarrow> False | Some t \<Rightarrow> t \<noteq> [])"

definition truthy_num :: "int option \<Rightarrow> bool" where
  "truthy_num n = (case n of None \<Rightarrow> False | Some k \<Rightarrow> k \<noteq> 0)"

definition truthy_bool :: "bool option \<Rightarrow> bool" where
  "truthy_bool b = (case b of None \<Rightarrow> False | Some c \<Rightarrow> c)"

text \<open>A number inside a template literal: its decimal digits, with a sign.\<close>

definition digit :: "nat \<Rightarrow> char" where
  "digit d = ''0123456789'' ! d"

fun string_of_nat :: "nat \<Rightarrow> string" where
  "string_of_nat n =
     (if n < 10 then [digit n] else string_of_nat (n div 10) @ [digit (n mod 10)])"

declare string_of_nat.simps [simp del]

definition string_of_int :: "int \<Rightarrow> string" where
  "string_of_int i = (if i < 0 then CHR ''-'' # string_of_nat (nat (- i)) else string_of_nat (nat i))"

section \<open>The HTTP transport and the effects of a call\<close>

text \<open>
  \<open>GET\<close> (utils/http) resolves with the response of the remote API, whatever its
  status: the facade branches on \<open>response.status\<close>.  The remote API is a parameter of
  every operation, a function from the requested URL to the response.
\<close>

record 'd response =
  status :: int
  statusText :: string
  data :: 'd

text \<open>\<open>new Error(message)\<close>, thrown: the \<open>Inl\<close> side of a result.\<close>

datatype error = Error string

definition httpError :: "'d response \<Rightarrow> error" where
  "httpError r = Error (''Error '' @ string_of_int (status r) @ '': '' @ statusText r)"

text \<open>
  A page of a list endpoint: \<open>{ meta: { count, page, per_page, next_cursor, url }, results }\<close>.
  \<open>'u\<close> is the type of a URL decorated with the pagination parameters (a string in the
  program), \<open>'w\<close> the type of a result.
\<close>

record 'u page_meta =
  meta_count :: int
  meta_page :: int
  meta_per_page :: int
  next_cursor :: "string option"
  meta_url :: "'u option"

record ('u, 'w) result_page =
  meta :: "'u page_meta"
  results :: "'w list"

text \<open>
  What a call does besides returning, in the order it does it: requests, console
  output, the files the facade writes (\<open>fs.writeFileSync\<close>, \<open>convertToCSV\<close>) and the
  flushes of the export sink.
\<close>

datatype sink_format = Json | Csv

datatype ('u, 'w) event =
    Get 'u
  | ConsoleLog string
  | WriteFileSync string "('u, 'w) result_page"
  | ConvertToCSV "'w list" string
  | Export sink_format string "nat option" "'w list"

text \<open>
  An awaited call: what it settles to, and what it did.  \<open>Some (Inr v)\<close> resolves with
  \<open>v\<close>, \<open>Some (Inl e)\<close> rejects with \<open>e\<close>, \<open>None\<close> never settles.
\<close>

type_synonym ('a, 'u, 'w) async = "(error + 'a) option \<times> ('u, 'w) event list"

definition api_url :: string where
  "api_url = ''https://api.openalex.org''"

section \<open>Single-entity lookups\<close>

text \<open>In this section \<open>api url\<close> is \<open>await GET(url)\<close>.\<close>

definition entityUrl :: "string \<Rightarrow> string \<Rightarrow> string option \<Rightarrow> string" where
  "entityUrl collection ident externalIds =
     (case externalIds of
        None \<Rightarrow> api_url @ ''/'' @ collection @ ''/'' @ ident
      | Some ns \<Rightarrow>
          if ns \<noteq> [] then api_url @ ''/'' @ collection @ ''/'' @ ns @ '':'' @ ident
          else api_url @ ''/'' @ collection @ ''/'' @ ident)"

text \<open>The placeholder \<open>{ id: id, biblio: {}, counts_by_year: [] }\<close> of \<open>work\<close>.\<close>

definition emptyWork :: "string \<Rightarrow> entity" where
  "emptyWork ident =
     [''id'' \<mapsto> JStr ident, ''biblio'' \<mapsto> JObj [], ''counts_by_year'' \<mapsto> JArr []]"

definition work ::
  "(string \<Rightarrow> entity response) \<Rightarrow> string \<Rightarrow> string option
     \<Rightarrow> (error + entity) \<times> (string, entity) event list" where
  "work api ident externalIds =
     (let url = entityUrl ''works'' ident externalIds;
          response = api url
      in if status response = 200 then (Inr (data response), [Get url])
         else if status response = 404
         then (Inr (emptyWork ident),
               [Get url, ConsoleLog (''Work with id '' @ ident @ '' not found'')])
         else (Inr (emptyWork ident),
               [Get url,
                ConsoleLog (''Error '' @ string_of_int (status response) @ '': ''
                              @ statusText response)]))"

definition author ::
  "(string \<Rightarrow> entity response) \<Rightarrow> string \<Rightarrow> string option
     \<Rightarrow> (error + entity) \<times> (string, entity) event list" where
  "author api ident externalIds =
     (let url = entityUrl ''authors'' ident externalIds;
          response = api url
      in if status response = 200 then (Inr (data response), [Get url])
         else (Inl (httpError response), [Get url]))"

definition source ::
  "(string \<Rightarrow> entity response) \<Rightarrow> string \<Rightarrow> string option
     \<Rightarrow> (error + entity) \<times> (string, entity) event list" where
  "source api ident externalIds =
     (let url = entityUrl ''sources'' ident externalIds;
          response = api url
      in if status response = 200 then (Inr (data response), [Get url])
         else (Inl (httpError response), [Get url]))"

definition institution ::
  "(string \<Rightarrow> entity response) \<Rightarrow> string \<Rightarrow> string option
     \<Rightarrow> (error + entity) \<times> (string, entity) event list" where
  "institution api ident externalIds =
     (let url = entityUrl ''institutions'' ident externalIds;
          response = api url
      in if status response = 200 then (Inr (data response), [Get url])
         else (Inl (httpError response), [Get url]))"

definition topic ::
  "(string \<Rightarrow> entity response) \<Rightarrow> string
     \<Rightarrow> (error + entity) \<times> (string, entity) event list" where
  "topic api ident =
     (if ident = [] then (Inl (Error ''Topic id is required''), [])
      else let url = api_url @ ''/topics/'' @ ident;
               response = api url
           in if status response = 200 then (Inr (data response), [Get url])
              else (Inl (httpError response), [Get url]))"

definition autoCompleteWorks ::
  "(string \<Rightarrow> 'd response) \<Rightarrow> string \<Rightarrow> (error + 'd) \<times> (string, entity) event list" where
  "autoCompleteWorks api search =
     (let url = api_url @ ''/autocomplete/works?q='' @ search;
          response = api url
      in if status response = 200 then (Inr (data response), [Get url])
         else (Inl (httpError response), [Get url]))"

definition ngram ::
  "(string \<Rightarrow> entity response) \<Rightarrow> string
     \<Rightarrow> (error + entity) \<times> (string, entity) event list" where
  "ngram api ident =
     (let url = api_url @ ''/works/'' @ ident @ ''/ngram'';
          response = api url
      in if status response = 200 then (Inr (data response), [Get url])
         else (Inl (httpError response), [Get url]))"

definition notFound :: "string \<Rightarrow> entity response" where
  "notFound u = \<lparr>status = 404, statusText = ''Not Found'', data = Map.empty\<rparr>"

definition serverError :: "string \<Rightarrow> entity response" where
  "serverError u = \<lparr>status = 500, statusText = ''Internal Server Error'', data = Map.empty\<rparr>"

section \<open>List requests: the facade\<close>

text \<open>
  \<open>SearchParameters\<close>.  Every field is optional; \<open>'f\<close> and \<open>'s\<close> are the types of the
  filter map and of the sort directive, which the facade only hands to \<open>buildUrl\<close>.
\<close>

record ('f, 's) searchParameters =
  search :: "string option"
  searchField :: "string option"
  perPage :: "int option"
  page :: "int option"
  retriveAllPages :: "bool option"
  toCsv :: "string option"
  toJson :: "string option"
  startPage :: "int option"
  endPage :: "int option"
  filter_by :: "'f option"
  groupBy :: "string option"
  sortBy :: "'s option"
  AbstractArrayToString :: "bool option"
  chunkSize :: "int option"

text \<open>The value of a truthy operand: \<open>if (toJson)\<close>, \<open>if (chunkSize)\<close>.\<close>

definition ifNum :: "int option \<Rightarrow> int option" where
  "ifNum n = (case n of None \<Rightarrow> None | Some k \<Rightarrow> if k \<noteq> 0 then Some k else None)"

definition ifStr :: "string option \<Rightarrow> string option" where
  "ifStr s = (case s of None \<Rightarrow> None | Some t \<Rightarrow> if t \<noteq> [] then Some t else None)"

text \<open>\<open>startPage && endPage\<close>, with the two numbers when it holds.\<close>

definition boundedWindow :: "int option \<Rightarrow> int option \<Rightarrow> (int \<times> int) option" where
  "boundedWindow s e =
     (case ifNum s of
        None \<Rightarrow> None
      | Some a \<Rightarrow> (case ifNum e of None \<Rightarrow> None | Some b \<Rightarrow> Some (a, b)))"

text \<open>
  The callback of \<open>response.data.results.map\<close> in \<open>works\<close>: a truthy
  \<open>abstract_inverted_index\<close> is converted into \<open>abstract\<close>, and the index is deleted
  whatever it was.
\<close>

definition abstractArrayToString :: "(json \<Rightarrow> string) \<Rightarrow> entity \<Rightarrow> entity" where
  "abstractArrayToString convert w =
     (let w1 = (case w ''abstract_inverted_index'' of
                  None \<Rightarrow> w
                | Some idx \<Rightarrow>
                    if truthy_json idx then w(''abstract'' \<mapsto> JStr (convert idx)) else w)
      in w1(''abstract_inverted_index'' := None))"

text \<open>
  The functions the facade imports from utils/: their bodies are not among the sources,
  so the facade takes them as parameters.  A helper that is awaited returns what it
  settles to and what it did.  The helpers of \<open>authors\<close>, \<open>sources\<close>, \<open>institutions\<close> and
  \<open>topics\<close> (\<open>validateAuthorParameters\<close>, \<open>handleMultipleAuthorsPages\<close>,
  \<open>handleAllAuthorsPages\<close> and their namesakes) stand in the last three fields.
\<close>

record ('u, 'f, 's) helpers =
  GET :: "'u \<Rightarrow> ('u, entity) result_page response"
  validateParameters ::
    "bool option \<Rightarrow> int option \<Rightarrow> int option \<Rightarrow> string option \<Rightarrow> int option
       \<Rightarrow> string option \<Rightarrow> string option \<Rightarrow> error option"
  buildUrl ::
    "string \<Rightarrow> string \<Rightarrow> string option \<Rightarrow> string option \<Rightarrow> 'f option
       \<Rightarrow> string option \<Rightarrow> 's option \<Rightarrow> string"
  getCursorByPage :: "string \<Rightarrow> int option \<Rightarrow> int option \<Rightarrow> (string, 'u, entity) async"
  appendCursorToUrl :: "string \<Rightarrow> int option \<Rightarrow> string \<Rightarrow> bool option \<Rightarrow> 'u"
  convertAbstractArrayToString :: "json \<Rightarrow> string"
  handleMultiplePages ::
    "int \<Rightarrow> int \<Rightarrow> 'u \<Rightarrow> ('u, entity) result_page response \<Rightarrow> string option
       \<Rightarrow> string option \<Rightarrow> bool option \<Rightarrow> (('u, entity) result_page, 'u, entity) async"
  handleAllPages ::
    "'u \<Rightarrow> ('u, entity) result_page response \<Rightarrow> string option \<Rightarrow> string option
       \<Rightarrow> bool option \<Rightarrow> (('u, entity) result_page, 'u, entity) async"
  handleAllPagesInChunks ::
    "'u \<Rightarrow> ('u, entity) result_page response \<Rightarrow> string option \<Rightarrow> string option
       \<Rightarrow> bool option \<Rightarrow> int \<Rightarrow> (unit, 'u, entity) async"
  validateAuthorParameters ::
    "bool option \<Rightarrow> int option \<Rightarrow> int option \<Rightarrow> string option \<Rightarrow> error option"
  handleMultipleAuthorsPages ::
    "int \<Rightarrow> int \<Rightarrow> 'u \<Rightarrow> ('u, entity) result_page response \<Rightarrow> string option
       \<Rightarrow> string option \<Rightarrow> (('u, entity) result_page, 'u, entity) async"
  handleAllAuthorsPages ::
    "'u \<Rightarrow> ('u, entity) result_page response \<Rightarrow> string option \<Rightarrow> string option
       \<Rightarrow> (('u, entity) result_page, 'u, entity) async"

text \<open>
  The outcome of a call of the facade: what its promise settles to, what it did until
  then, and the promise it started and did not await, if any.
\<close>

record 'u call =
  settled :: "(error + ('u, entity) result_page) option"
  trace :: "('u, entity) event list"
  detached :: "(unit, 'u, entity) async option"

text \<open>
  \<open>works\<close>, up to \<open>appendCursorToUrl\<close>: validation, the builder's URL, the cursor of
  \<open>page\<close>, the override of drain-to-completion, the cursor of \<open>startPage\<close>.  It yields the
  URL to request and the page number \<open>meta.page\<close> is to receive.
\<close>

definition worksRequest ::
  "('u, 'f, 's) helpers \<Rightarrow> ('f, 's) searchParameters \<Rightarrow> ('u \<times> int option, 'u, entity) async" where
  "worksRequest h sp =
     (case validateParameters h (retriveAllPages sp) (startPage sp) (endPage sp)
             (searchField sp) (chunkSize sp) (toCsv sp) (toJson sp) of
        Some e \<Rightarrow> (Some (Inl e), [])
      | None \<Rightarrow>
          let url = buildUrl h api_url ''works'' (search sp) (searchField sp) (filter_by sp)
                      (groupBy sp) (sortBy sp)
          in case getCursorByPage h url (page sp) (perPage sp) of
               (None, t1) \<Rightarrow> (None, t1)
             | (Some (Inl e), t1) \<Rightarrow> (Some (Inl e), t1)
             | (Some (Inr cursor0), t1) \<Rightarrow>
                 let perPage1 = (if truthy_bool (retriveAllPages sp) then Some 200 else perPage sp);
                     cursor1 = (if truthy_bool (retriveAllPages sp) then ''*'' else cursor0)
                 in case boundedWindow (startPage sp) (endPage sp) of
                      None \<Rightarrow>
                        (Some (Inr (appendCursorToUrl h url perPage1 cursor1 (retriveAllPages sp),
                                    page sp)), t1)
                    | Some w \<Rightarrow>
                        (case getCursorByPage h url (startPage sp) perPage1 of
                           (None, t2) \<Rightarrow> (None, t1 @ t2)
                         | (Some (Inl e), t2) \<Rightarrow> (Some (Inl e), t1 @ t2)
                         | (Some (Inr cursor2), t2) \<Rightarrow>
                             (Some (Inr (appendCursorToUrl h url perPage1 cursor2
                                           (retriveAllPages sp), startPage sp)), t1 @ t2)))"

text \<open>
  What \<open>works\<close> does to the page of a response with status 200 before anything else:
  \<open>meta.page = page ?? 1\<close>, and with \<open>AbstractArrayToString\<close> the conversion of every
  result.
\<close>

definition processPage ::
  "('f, 's) searchParameters \<Rightarrow> (json \<Rightarrow> string) \<Rightarrow> int option
     \<Rightarrow> ('u, entity) result_page \<Rightarrow> ('u, entity) result_page" where
  "processPage sp convert page1 d =
     (let d1 = d\<lparr>meta := (meta d)\<lparr>meta_page := (case page1 of None \<Rightarrow> 1 | Some n \<Rightarrow> n)\<rparr>\<rparr>
      in if truthy_bool (AbstractArrayToString sp)
         then d1\<lparr>results := map (abstractArrayToString convert) (results d1)\<rparr>
         else d1)"

text \<open>
  \<open>works\<close>, from \<open>await GET(url)\<close> on.  Of the three traversal modes, the bounded window
  and the monolithic drain return what their handler settles to.  The chunked drain
  calls \<open>handleAllPagesInChunks\<close> without \<open>await\<close> or \<open>return\<close> and goes on with the
  statements of the single page.
\<close>

definition worksResponse ::
  "('u, 'f, 's) helpers \<Rightarrow> ('f, 's) searchParameters \<Rightarrow> 'u \<Rightarrow> int option \<Rightarrow> 'u call" where
  "worksResponse h sp url page1 =
     (let response = GET h url
      in if status response = 200 then
           let d2 = processPage sp (convertAbstractArrayToString h) page1 (data response);
               response2 = response\<lparr>data := d2\<rparr>
           in case boundedWindow (startPage sp) (endPage sp) of
                Some (s, e) \<Rightarrow>
                  (case handleMultiplePages h s e url response2 (toJson sp) (toCsv sp)
                          (AbstractArrayToString sp) of
                     (r, t) \<Rightarrow> \<lparr>settled = r, trace = Get url # t, detached = None\<rparr>)
              | None \<Rightarrow>
                  if truthy_bool (retriveAllPages sp) \<and> ifNum (chunkSize sp) = None then
                    (case handleAllPages h url response2 (toJson sp) (toCsv sp)
                            (AbstractArrayToString sp) of
                       (r, t) \<Rightarrow> \<lparr>settled = r, trace = Get url # t, detached = None\<rparr>)
                  else
                    \<lparr>settled = Some (Inr (d2\<lparr>meta := (meta d2)\<lparr>meta_url := Some url\<rparr>\<rparr>)),
                     trace =
                       Get url
                       # (case ifStr (toJson sp) of
                            None \<Rightarrow> [] | Some name \<Rightarrow> [WriteFileSync (name @ ''.json'') d2])
                       @ (case ifStr (toCsv sp) of
                            None \<Rightarrow> [] | Some name \<Rightarrow> [ConvertToCSV (results d2) name]),
                     detached =
                       (if truthy_bool (retriveAllPages sp) then
                          (case ifNum (chunkSize sp) of
                             None \<Rightarrow> None
                           | Some k \<Rightarrow>
                               Some (handleAllPagesInChunks h url response2 (toJson sp)
                                       (toCsv sp) (AbstractArrayToString sp) k))
                        else None)\<rparr>
         else \<lparr>settled = Some (Inl (httpError response)), trace = [Get url], detached = None\<rparr>)"

definition works :: "('u, 'f, 's) helpers \<Rightarrow> ('f, 's) searchParameters \<Rightarrow> 'u call" where
  "works h sp =
     (case worksRequest h sp of
        (None, t) \<Rightarrow> \<lparr>settled = None, trace = t, detached = None\<rparr>
      | (Some (Inl e), t) \<Rightarrow> \<lparr>settled = Some (Inl e), trace = t, detached = None\<rparr>
      | (Some (Inr (url, page1)), t) \<Rightarrow>
          (let c = worksResponse h sp url page1 in c\<lparr>trace := t @ trace c\<rparr>))"

text \<open>
  \<open>authors\<close>, \<open>sources\<close>, \<open>institutions\<close> and \<open>topics\<close>: one text but for the name of the
  collection and the names of the helpers.  They have no abstract conversion and no
  chunked drain.
\<close>

definition listRequest ::
  "string \<Rightarrow> ('u, 'f, 's) helpers \<Rightarrow> ('f, 's) searchParameters
     \<Rightarrow> ('u \<times> int option, 'u, entity) async" where
  "listRequest collection h sp =
     (case validateAuthorParameters h (retriveAllPages sp) (startPage sp) (endPage sp)
             (searchField sp) of
        Some e \<Rightarrow> (Some (Inl e), [])
      | None \<Rightarrow>
          let url = buildUrl h api_url collection (search sp) (searchField sp) (filter_by sp)
                      (groupBy sp) (sortBy sp)
          in case getCursorByPage h url (page sp) (perPage sp) of
               (None, t1) \<Rightarrow> (None, t1)
             | (Some (Inl e), t1) \<Rightarrow> (Some (Inl e), t1)
             | (Some (Inr cursor0), t1) \<Rightarrow>
                 let perPage1 = (if truthy_bool (retriveAllPages sp) then Some 200 else perPage sp);
                     cursor1 = (if truthy_bool (retriveAllPages sp) then ''*'' else cursor0)
                 in case boundedWindow (startPage sp) (endPage sp) of
                      None \<Rightarrow>
                        (Some (Inr (appendCursorToUrl h url perPage1 cursor1 (retriveAllPages sp),
                                    page sp)), t1)
                    | Some w \<Rightarrow>
                        (case getCursorByPage h url (startPage sp) perPage1 of
                           (None, t2) \<Rightarrow> (None, t1 @ t2)
                         | (Some (Inl e), t2) \<Rightarrow> (Some (Inl e), t1 @ t2)
                         | (Some (Inr cursor2), t2) \<Rightarrow>
                             (Some (Inr (appendCursorToUrl h url perPage1 cursor2
                                           (retriveAllPages sp), startPage sp)), t1 @ t2)))"

definition listResponse ::
  "('u, 'f, 's) helpers \<Rightarrow> ('f, 's) searchParameters \<Rightarrow> 'u \<Rightarrow> int option \<Rightarrow> 'u call" where
  "listResponse h sp url page1 =
     (let response = GET h url
      in if status response = 200 then
           let d1 = (data response)
                      \<lparr>meta := (meta (data response))
                         \<lparr>meta_page := (case page1 of None \<Rightarrow> 1 | Some n \<Rightarrow> n)\<rparr>\<rparr>;
               response2 = response\<lparr>data := d1\<rparr>
           in case boundedWindow (startPage sp) (endPage sp) of
                Some (s, e) \<Rightarrow>
                  (case handleMultipleAuthorsPages h s e url response2 (toJson sp) (toCsv sp) of
                     (r, t) \<Rightarrow> \<lparr>settled = r, trace = Get url # t, detached = None\<rparr>)
              | None \<Rightarrow>
                  if truthy_bool (retriveAllPages sp) then
                    (case handleAllAuthorsPages h url response2 (toJson sp) (toCsv sp) of
                       (r, t) \<Rightarrow> \<lparr>settled = r, trace = Get url # t, detached = None\<rparr>)
                  else
                    \<lparr>settled = Some (Inr d1),
                     trace =
                       Get url
                       # (case ifStr (toJson sp) of
                            None \<Rightarrow> [] | Some name \<Rightarrow> [WriteFileSync (name @ ''.json'') d1])
                       @ (case ifStr (toCsv sp) of
                            None \<Rightarrow> [] | Some name \<Rightarrow> [ConvertToCSV (results d1) name]),
                     detached = None\<rparr>
         else \<lparr>settled = Some (Inl (httpError response)), trace = [Get url], detached = None\<rparr>)"

definition listOf ::
  "string \<Rightarrow> ('u, 'f, 's) helpers \<Rightarrow> ('f, 's) searchParameters \<Rightarrow> 'u call" where
  "listOf collection h sp =
     (case listRequest collection h sp of
        (None, t) \<Rightarrow> \<lparr>settled = None, trace = t, detached = None\<rparr>
      | (Some (Inl e), t) \<Rightarrow> \<lparr>settled = Some (Inl e), trace = t, detached = None\<rparr>
      | (Some (Inr (url, page1)), t) \<Rightarrow>
          (let c = listResponse h sp url page1 in c\<lparr>trace := t @ trace c\<rparr>))"

definition authors :: "('u, 'f, 's) helpers \<Rightarrow> ('f, 's) searchParameters \<Rightarrow> 'u call" where
  "authors = listOf ''authors''"

definition sources :: "('u, 'f, 's) helpers \<Rightarrow> ('f, 's) searchParameters \<Rightarrow> 'u call" where
  "sources = listOf ''sources''"

definition institutions :: "('u, 'f, 's) helpers \<Rightarrow> ('f, 's) searchParameters \<Rightarrow> 'u call" where
  "institutions = listOf ''institutions''"

definition topics :: "('u, 'f, 's) helpers \<Rightarrow> ('f, 's) searchParameters \<Rightarrow> 'u call" where
  "topics = listOf ''topics''"

section \<open>The helpers, from the specification\<close>

text \<open>
  A URL with its pagination parameters, as the spec's Page Fetcher decorates it: the
  builder's URL, \<open>per-page\<close>, \<open>cursor\<close>, and whether the request drains the collection.
\<close>

record paged_url =
  url_base :: string
  url_per_page :: "int option"
  url_cursor :: string
  url_all :: bool

type_synonym 'w remote = "paged_url \<Rightarrow> (paged_url, 'w) result_page response"

text \<open>
  Modelled from the spec: \<open>appendCursorToUrl\<close> (utils/helpers) is not among the sources.
  Section 4.3: the builder's URL is decorated with the pagination query parameters
  \<open>cursor\<close> and \<open>per-page\<close>.
\<close>

definition specAppendCursorToUrl ::
  "string \<Rightarrow> int option \<Rightarrow> string \<Rightarrow> bool option \<Rightarrow> paged_url" where
  "specAppendCursorToUrl url perPage1 cursor retriveAll =
     \<lparr>url_base = url, url_per_page = perPage1, url_cursor = cursor,
      url_all = truthy_bool retriveAll\<rparr>"

text \<open>
  Modelled from the spec: \<open>validateParameters\<close> (utils/works) and its namesakes for the
  other collections are not among the sources.  Sections 3 and 7: a request that sets
  \<open>startPage\<close> or \<open>endPage\<close> together with drain-to-completion, or \<open>startPage\<close> without
  \<open>endPage\<close>, is rejected with a validation error.  A parameter is set when it is truthy,
  as the facade reads it.  The text of the error is not in the spec: a tag stands for it.
\<close>

definition validationError :: "string \<Rightarrow> error" where
  "validationError tag = Error (''ValidationError: '' @ tag)"

definition specValidate :: "bool option \<Rightarrow> int option \<Rightarrow> int option \<Rightarrow> error option" where
  "specValidate retriveAll startPage1 endPage1 =
     (if truthy_bool retriveAll \<and> (truthy_num startPage1 \<or> truthy_num endPage1)
      then Some (validationError ''window with drain'')
      else if truthy_num startPage1 \<and> \<not> truthy_num endPage1
      then Some (validationError ''startPage without endPage'')
      else None)"

text \<open>
  Modelled from the spec: the Page Fetcher (section 4.3).  One GET; the page on HTTP
  200; on HTTP 404 an empty page with no next cursor; on any other status a transport
  error with the status code and text.  Of a page, the callers use the results and
  the next cursor.
\<close>

definition fetchPage ::
  "'w remote \<Rightarrow> paged_url \<Rightarrow> (error + 'w list \<times> string option) \<times> (paged_url, 'w) event list" where
  "fetchPage R u =
     (let r = R u
      in (if status r = 200 then Inr (results (data r), next_cursor (meta (data r)))
          else if status r = 404 then Inr ([], None)
          else Inl (httpError r),
          [Get u]))"

text \<open>
  Modelled from the spec: \<open>getCursorByPage\<close> (utils/helpers), the Cursor Resolver of
  section 4.2.  For a target page of at most 1 the start sentinel, without a request.
  Otherwise \<open>targetPage - 1\<close> sequential fetches from the sentinel on, each keeping only
  the next cursor; a failed fetch is propagated; when a page has no further cursor the
  last known cursor is returned.  An absent page is page 1, the documented default.
\<close>

fun resolveCursor ::
  "'w remote \<Rightarrow> string \<Rightarrow> int option \<Rightarrow> nat \<Rightarrow> string
     \<Rightarrow> (error + string) \<times> (paged_url, 'w) event list" where
  "resolveCursor R url perPage1 0 cursor = (Inr cursor, [])"
| "resolveCursor R url perPage1 (Suc n) cursor =
     (case fetchPage R \<lparr>url_base = url, url_per_page = perPage1, url_cursor = cursor,
                        url_all = False\<rparr> of
        (Inl e, t) \<Rightarrow> (Inl e, t)
      | (Inr (rs, None), t) \<Rightarrow> (Inr cursor, t)
      | (Inr (rs, Some c), t) \<Rightarrow>
          (case resolveCursor R url perPage1 n c of (r, t') \<Rightarrow> (r, t @ t')))"

definition specGetCursorByPage ::
  "'w remote \<Rightarrow> string \<Rightarrow> int option \<Rightarrow> int option \<Rightarrow> (string, paged_url, 'w) async" where
  "specGetCursorByPage R url page1 perPage1 =
     (let targetPage = (case page1 of None \<Rightarrow> 1 | Some n \<Rightarrow> n)
      in if targetPage \<le> 1 then (Some (Inr ''*''), [])
         else (case resolveCursor R url perPage1 (nat (targetPage - 1)) ''*'' of
                 (r, t) \<Rightarrow> (Some r, t)))"

text \<open>
  Modelled from the spec: fetch-and-advance (section 4.4).  From the next cursor of the
  page at hand, at most \<open>n\<close> further pages are fetched, each at the URL with the cursor
  replaced, until a page has no next cursor.  The results come back in the order of
  the remote API, each passed through \<open>f\<close>, with the cursor left over.
\<close>

fun walkPages ::
  "'w remote \<Rightarrow> ('w \<Rightarrow> 'w) \<Rightarrow> paged_url \<Rightarrow> nat \<Rightarrow> string option
     \<Rightarrow> (error + 'w list \<times> string option) \<times> (paged_url, 'w) event list" where
  "walkPages R f u 0 next = (Inr ([], next), [])"
| "walkPages R f u (Suc n) None = (Inr ([], None), [])"
| "walkPages R f u (Suc n) (Some c) =
     (case fetchPage R (u\<lparr>url_cursor := c\<rparr>) of
        (Inl e, t) \<Rightarrow> (Inl e, t)
      | (Inr (rs, next), t) \<Rightarrow>
          (case walkPages R f u n next of
             (Inl e, t') \<Rightarrow> (Inl e, t @ t')
           | (Inr (rest, left), t') \<Rightarrow> (Inr (map f rs @ rest, left), t @ t')))"

text \<open>
  Modelled from the spec: the Export Sink (section 6) writes a result sequence to
  \<open><name>.json\<close> or \<open><name>.csv\<close>; a chunked drain appends the chunk index to the stem.
\<close>

definition exportResults ::
  "string option \<Rightarrow> string option \<Rightarrow> nat option \<Rightarrow> 'w list \<Rightarrow> ('u, 'w) event list" where
  "exportResults toJson1 toCsv1 chunk rs =
     (case ifStr toJson1 of None \<Rightarrow> [] | Some name \<Rightarrow> [Export Json name chunk rs])
     @ (case ifStr toCsv1 of None \<Rightarrow> [] | Some name \<Rightarrow> [Export Csv name chunk rs])"

text \<open>
  Modelled from the spec: \<open>handleMultiplePages\<close> (utils/works), the bounded window of
  section 4.4.  From the first page, fetch-and-advance until \<open>endPage\<close> is reached
  (inclusive) or the collection is exhausted; the visited pages' results concatenated,
  under the \<open>meta\<close> of the first page.  The first page is the response the facade hands
  over: its \<open>meta.page\<close> has been set by the facade, and the handler leaves it as it is.
\<close>

definition specHandleMultiplePages ::
  "'w remote \<Rightarrow> ('w \<Rightarrow> 'w) \<Rightarrow> int \<Rightarrow> int \<Rightarrow> paged_url
     \<Rightarrow> (paged_url, 'w) result_page response \<Rightarrow> string option \<Rightarrow> string option
     \<Rightarrow> ((paged_url, 'w) result_page, paged_url, 'w) async" where
  "specHandleMultiplePages R f s e u response toJson1 toCsv1 =
     (let first = data response
      in case walkPages R f u (nat (e - s)) (next_cursor (meta first)) of
           (Inl err, t) \<Rightarrow> (Some (Inl err), t)
         | (Inr (rest, left), t) \<Rightarrow>
             (Some (Inr \<lparr>meta = meta first, results = results first @ rest\<rparr>),
              t @ exportResults toJson1 toCsv1 None (results first @ rest)))"

text \<open>
  Modelled from the spec: \<open>handleAllPages\<close> (utils/works), the monolithic drain of
  section 4.4: fetch-and-advance until the next cursor is absent, every page's results
  in one window.  The loop has no bound of its own: \<open>fuel\<close> bounds the pages fetched, and
  the call does not settle when the fuel ends before the collection does.
\<close>

definition specHandleAllPages ::
  "'w remote \<Rightarrow> ('w \<Rightarrow> 'w) \<Rightarrow> nat \<Rightarrow> paged_url
     \<Rightarrow> (paged_url, 'w) result_page response \<Rightarrow> string option \<Rightarrow> string option
     \<Rightarrow> ((paged_url, 'w) result_page, paged_url, 'w) async" where
  "specHandleAllPages R f fuel u response toJson1 toCsv1 =
     (let first = data response
      in case walkPages R f u fuel (next_cursor (meta first)) of
           (Inl err, t) \<Rightarrow> (Some (Inl err), t)
         | (Inr (rest, Some c), t) \<Rightarrow> (None, t)
         | (Inr (rest, None), t) \<Rightarrow>
             (Some (Inr \<lparr>meta = meta first, results = results first @ rest\<rparr>),
              t @ exportResults toJson1 toCsv1 None (results first @ rest)))"

text \<open>
  The facade's helpers as the specification describes them, over a remote API \<open>R\<close>, a
  URL builder and an abstract converter, which stay parameters.  So does
  \<open>handleAllPagesInChunks\<close>: the facade calls it and reads nothing of what it does.
\<close>

definition specHelpers ::
  "entity remote
     \<Rightarrow> (string \<Rightarrow> string \<Rightarrow> string option \<Rightarrow> string option \<Rightarrow> 'f option
          \<Rightarrow> string option \<Rightarrow> 's option \<Rightarrow> string)
     \<Rightarrow> (json \<Rightarrow> string) \<Rightarrow> nat
     \<Rightarrow> (paged_url \<Rightarrow> (paged_url, entity) result_page response \<Rightarrow> string option
          \<Rightarrow> string option \<Rightarrow> bool option \<Rightarrow> int \<Rightarrow> (unit, paged_url, entity) async)
     \<Rightarrow> (paged_url, 'f, 's) helpers" where
  "specHelpers R build convert fuel chunked =
     \<lparr>GET = R,
      validateParameters =
        (\<lambda>retriveAll s e field chunk csv js. specValidate retriveAll s e),
      buildUrl = build,
      getCursorByPage = specGetCursorByPage R,
      appendCursorToUrl = specAppendCursorToUrl,
      convertAbstractArrayToString = convert,
      handleMultiplePages =
        (\<lambda>s e u response js csv flag.
           specHandleMultiplePages R
             (if truthy_bool flag then abstractArrayToString convert else id)
             s e u response js csv),
      handleAllPages =
        (\<lambda>u response js csv flag.
           specHandleAllPages R
             (if truthy_bool flag then abstractArrayToString convert else id)
             fuel u response js csv),
      handleAllPagesInChunks = chunked,
      validateAuthorParameters = (\<lambda>retriveAll s e field. specValidate retriveAll s e),
      handleMultipleAuthorsPages =
        (\<lambda>s e u response js csv. specHandleMultiplePages R id s e u response js csv),
      handleAllAuthorsPages =
        (\<lambda>u response js csv. specHandleAllPages R id fuel u response js csv)\<rparr>"

text \<open>
  A collection as the remote API serves it from the URL \<open>u\<close>: page after page with
  status 200, each page's next cursor leading to the following page, the last page
  without a next cursor.
\<close>

fun serves :: "'w remote \<Rightarrow> paged_url \<Rightarrow> (paged_url, 'w) result_page list \<Rightarrow> bool" where
  "serves R u [] = False"
| "serves R u (p # ps) =
     (status (R u) = 200 \<and> data (R u) = p \<and>
      (case next_cursor (meta p) of
         None \<Rightarrow> ps = []
       | Some c \<Rightarrow> ps \<noteq> [] \<and> serves R (u\<lparr>url_cursor := c\<rparr>) ps))"

text \<open>The cursors of the pages of a collection whose first page is at \<open>c\<close>.\<close>

fun cursorsOf :: "string \<Rightarrow> (paged_url, 'w) result_page list \<Rightarrow> string list" where
  "cursorsOf c [] = []"
| "cursorsOf c (p # ps) =
     c # (case next_cursor (meta p) of None \<Rightarrow> [] | Some c' \<Rightarrow> cursorsOf c' ps)"

section \<open>Example requests and remote APIs\<close>

text \<open>The default of every list method: \<open>{ perPage: 25, page: 1, retriveAllPages: false }\<close>.\<close>

definition defaultParameters :: "(unit, unit) searchParameters" where
  "defaultParameters =
     \<lparr>search = None, searchField = None, perPage = Some 25, page = Some 1,
      retriveAllPages = Some False, toCsv = None, toJson = None, startPage = None,
      endPage = None, filter_by = None, groupBy = None, sortBy = None,
      AbstractArrayToString = None, chunkSize = None\<rparr>"

text \<open>A URL builder for the examples: the host and the collection, no query.\<close>

definition plainUrl ::
  "string \<Rightarrow> string \<Rightarrow> string option \<Rightarrow> string option \<Rightarrow> unit option
     \<Rightarrow> string option \<Rightarrow> unit option \<Rightarrow> string" where
  "plainUrl host collection q field fl g srt = host @ ''/'' @ collection"

text \<open>A converter for the examples: the words of the index, each followed by a blank.\<close>

definition wordsOf :: "json \<Rightarrow> string" where
  "wordsOf idx = (case idx of JObj kvs \<Rightarrow> concat (map (\<lambda>kv. fst kv @ '' '') kvs) | _ \<Rightarrow> [])"

definition pageOf :: "int \<Rightarrow> 'w list \<Rightarrow> string option \<Rightarrow> (paged_url, 'w) result_page" where
  "pageOf n rs next =
     \<lparr>meta = \<lparr>meta_count = n, meta_page = 1, meta_per_page = 25, next_cursor = next,
              meta_url = None\<rparr>,
      results = rs\<rparr>"

text \<open>A remote API that answers by the cursor of the request, and 404 for any other.\<close>

definition serveTable :: "(string \<times> (paged_url, 'w) result_page) list \<Rightarrow> 'w remote" where
  "serveTable table u =
     (case map_of table (url_cursor u) of
        None \<Rightarrow> \<lparr>status = 404, statusText = ''Not Found'', data = pageOf 0 [] None\<rparr>
      | Some p \<Rightarrow> \<lparr>status = 200, statusText = ''OK'', data = p\<rparr>)"

definition failing :: "'w remote" where
  "failing u = \<lparr>status = 500, statusText = ''Internal Server Error'', data = pageOf 0 [] None\<rparr>"

definition item :: "string \<Rightarrow> entity" where
  "item ident = [''id'' \<mapsto> JStr ident]"

text \<open>A collection of five pages, one work a page.\<close>

definition fivePages :: "(string \<times> (paged_url, entity) result_page) list" where
  "fivePages =
     [(''*'', pageOf 5 [item ''W1''] (Some ''c2'')),
      (''c2'', pageOf 5 [item ''W2''] (Some ''c3'')),
      (''c3'', pageOf 5 [item ''W3''] (Some ''c4'')),
      (''c4'', pageOf 5 [item ''W4''] (Some ''c5'')),
      (''c5'', pageOf 5 [item ''W5''] None)]"

text \<open>
  A remote API that serves the five pages to requests of page size 200 only, and
  answers any other page size with 403.
\<close>

definition picky :: "entity remote" where
  "picky u =
     (if url_per_page u = Some 200 then serveTable fivePages u
      else \<lparr>status = 403, statusText = ''Forbidden'', data = pageOf 0 [] None\<rparr>)"

text \<open>A remote API that serves the first of the five pages and fails from there on.\<close>

definition breaking :: "entity remote" where
  "breaking u = (if url_cursor u = ''*'' then serveTable fivePages u else failing u)"

text \<open>A chunked handler for the examples: it does nothing and never settles.\<close>

definition idle ::
  "paged_url \<Rightarrow> (paged_url, entity) result_page response \<Rightarrow> string option \<Rightarrow> string option
     \<Rightarrow> bool option \<Rightarrow> int \<Rightarrow> (unit, paged_url, entity) async" where
  "idle u response js csv flag k = (None, [])"

text \<open>A collection of one page: a work with an inverted index, a work with none.\<close>

definition indexed :: entity where
  "indexed = [''id'' \<mapsto> JStr ''W1'',
              ''abstract_inverted_index'' \<mapsto> JObj [(''Hello'', JArr [JNum 0]), (''world'', JArr [JNum 1])]]"

definition unindexed :: entity where
  "unindexed = [''id'' \<mapsto> JStr ''W2'', ''abstract_inverted_index'' \<mapsto> JNull]"

definition onePage :: "(string \<times> (paged_url, entity) result_page) list" where
  "onePage = [(''*'', pageOf 2 [indexed, unindexed] None)]"

section \<open>Single-entity lookups: the properties\<close>

lemma string_of_int_404: "string_of_int 404 = ''404''"
  by (simp add: string_of_int_def string_of_nat.simps digit_def)

lemma string_of_int_500: "string_of_int 500 = ''500''"
  by (simp add: string_of_int_def string_of_nat.simps digit_def)

lemma httpError_404:
  "status r = 404 \<Longrightarrow> httpError r = Error (''Error 404: '' @ statusText r)"
  by (simp add: httpError_def string_of_int_404)

text \<open>
  C1, as stated, fails: an \<open>author\<close> lookup answered with HTTP 404 throws
  \<open>Error 404: Not Found\<close>; it returns no placeholder.
\<close>

theorem C1_author_404_throws:
  "author notFound ''A5023888391'' None
     = (Inl (Error ''Error 404: Not Found''), [Get ''https://api.openalex.org/authors/A5023888391''])"
  by (simp add: author_def entityUrl_def api_url_def notFound_def httpError_def
      string_of_int_404)

text \<open>
  C1, amended.  A \<open>work\<close> lookup answered with HTTP 404 does not throw: it logs
  \<open>Work with id <id> not found\<close> and returns the placeholder, which carries the requested
  id, an empty \<open>biblio\<close> object and an empty \<open>counts_by_year\<close> list.  The \<open>author\<close>,
  \<open>source\<close>, \<open>institution\<close> and \<open>topic\<close> lookups answered with HTTP 404 throw
  \<open>Error 404: <statusText>\<close> after their one request.
\<close>

theorem C1_lookup_404:
  "(status (api (entityUrl ''works'' ident ext)) = 404 \<longrightarrow>
      work api ident ext
        = (Inr (emptyWork ident),
           [Get (entityUrl ''works'' ident ext),
            ConsoleLog (''Work with id '' @ ident @ '' not found'')])
      \<and> emptyWork ident ''id'' = Some (JStr ident)
      \<and> emptyWork ident ''biblio'' = Some (JObj [])
      \<and> emptyWork ident ''counts_by_year'' = Some (JArr [])
      \<and> dom (emptyWork ident) = {''id'', ''biblio'', ''counts_by_year''})
   \<and> (status (api (entityUrl ''authors'' ident ext)) = 404 \<longrightarrow>
      author api ident ext
        = (Inl (Error (''Error 404: '' @ statusText (api (entityUrl ''authors'' ident ext)))),
           [Get (entityUrl ''authors'' ident ext)]))
   \<and> (status (api (entityUrl ''sources'' ident ext)) = 404 \<longrightarrow>
      source api ident ext
        = (Inl (Error (''Error 404: '' @ statusText (api (entityUrl ''sources'' ident ext)))),
           [Get (entityUrl ''sources'' ident ext)]))
   \<and> (status (api (entityUrl ''institutions'' ident ext)) = 404 \<longrightarrow>
      institution api ident ext
        = (Inl (Error (''Error 404: '' @ statusText (api (entityUrl ''institutions'' ident ext)))),
           [Get (entityUrl ''institutions'' ident ext)]))
   \<and> (ident \<noteq> [] \<and> status (api (api_url @ ''/topics/'' @ ident)) = 404 \<longrightarrow>
      topic api ident
        = (Inl (Error (''Error 404: '' @ statusText (api (api_url @ ''/topics/'' @ ident)))),
           [Get (api_url @ ''/topics/'' @ ident)]))"
proof -
  have w: "dom (emptyWork ident) = {''id'', ''biblio'', ''counts_by_year''}"
    by (auto simp: emptyWork_def split: if_splits)
  show ?thesis
    using w
    by (simp add: work_def author_def source_def institution_def topic_def Let_def
        httpError_404 emptyWork_def)
qed

theorem C1_lookup_404_witness:
  "work notFound ''W1'' None
     = (Inr (emptyWork ''W1''),
        [Get ''https://api.openalex.org/works/W1'', ConsoleLog ''Work with id W1 not found'']
          )
   \<and> source notFound ''S1'' (Some ''issn'')
     = (Inl (Error ''Error 404: Not Found''),
        [Get ''https://api.openalex.org/sources/issn:S1''])
   \<and> topic notFound ''T1''
     = (Inl (Error ''Error 404: Not Found''),
        [Get ''https://api.openalex.org/topics/T1''])"
  using C1_lookup_404 [of notFound "''W1''" None]
    C1_lookup_404 [of notFound "''S1''" "Some ''issn''"]
    C1_lookup_404 [of notFound "''T1''" None]
  by (simp add: notFound_def entityUrl_def api_url_def)

text \<open>
  C2, as stated, fails: a \<open>work\<close> lookup answered with HTTP 500 throws nothing.  It logs
  the status to the console and returns the placeholder.
\<close>

theorem C2_work_500_returns:
  "work serverError ''W1'' None
     = (Inr (emptyWork ''W1''),
        [Get ''https://api.openalex.org/works/W1'',
         ConsoleLog ''Error 500: Internal Server Error''])"
  by (simp add: work_def entityUrl_def api_url_def serverError_def string_of_int_500)

text \<open>
  C9.  \<open>topic\<close> called with the empty id throws \<open>Topic id is required\<close> and issues no
  request.  \<open>work\<close>, \<open>author\<close>, \<open>source\<close> and \<open>institution\<close> have no such check: called
  with the empty id they request the collection URL with an empty last segment, and
  their outcome is the one the response's status decides.
\<close>

theorem C9_topic_requires_id:
  "topic api [] = (Inl (Error ''Topic id is required''), [])
   \<and> take 1 (snd (work api [] None)) = [Get ''https://api.openalex.org/works/'']
   \<and> fst (work api [] None)
       = Inr (if status (api ''https://api.openalex.org/works/'') = 200
              then data (api ''https://api.openalex.org/works/'') else emptyWork [])
   \<and> author api [] None
       = (if status (api ''https://api.openalex.org/authors/'') = 200
          then Inr (data (api ''https://api.openalex.org/authors/''))
          else Inl (httpError (api ''https://api.openalex.org/authors/'')),
          [Get ''https://api.openalex.org/authors/''])
   \<and> source api [] None
       = (if status (api ''https://api.openalex.org/sources/'') = 200
          then Inr (data (api ''https://api.openalex.org/sources/''))
          else Inl (httpError (api ''https://api.openalex.org/sources/'')),
          [Get ''https://api.openalex.org/sources/''])
   \<and> institution api [] None
       = (if status (api ''https://api.openalex.org/institutions/'') = 200
          then Inr (data (api ''https://api.openalex.org/institutions/''))
          else Inl (httpError (api ''https://api.openalex.org/institutions/'')),
          [Get ''https://api.openalex.org/institutions/''])"
  by (simp add: topic_def work_def author_def source_def institution_def entityUrl_def
      api_url_def Let_def)

section \<open>The facade: the properties\<close>

lemma works_non_200:
  "worksRequest h sp = (Some (Inr (u, p)), t) \<Longrightarrow> status (GET h u) \<noteq> 200 \<Longrightarrow>
   works h sp
     = \<lparr>settled = Some (Inl (httpError (GET h u))), trace = t @ [Get u], detached = None\<rparr>"
  by (simp add: works_def worksResponse_def processPage_def Let_def)

lemma listOf_non_200:
  "listRequest collection h sp = (Some (Inr (u, p)), t) \<Longrightarrow> status (GET h u) \<noteq> 200 \<Longrightarrow>
   listOf collection h sp
     = \<lparr>settled = Some (Inl (httpError (GET h u))), trace = t @ [Get u], detached = None\<rparr>"
  by (simp add: listOf_def listResponse_def Let_def)

lemma specHelpers_GET: "GET (specHelpers R build convert fuel chunked) = R"
  by (simp add: specHelpers_def)

lemma specHelpers_simps:
  "validateParameters (specHelpers R build convert fuel chunked)
     = (\<lambda>retriveAll s e field chunk csv js. specValidate retriveAll s e)"
  "buildUrl (specHelpers R build convert fuel chunked) = build"
  "getCursorByPage (specHelpers R build convert fuel chunked) = specGetCursorByPage R"
  "appendCursorToUrl (specHelpers R build convert fuel chunked) = specAppendCursorToUrl"
  "convertAbstractArrayToString (specHelpers R build convert fuel chunked) = convert"
  "handleMultiplePages (specHelpers R build convert fuel chunked)
     = (\<lambda>s e u response js csv flag.
          specHandleMultiplePages R
            (if truthy_bool flag then abstractArrayToString convert else id)
            s e u response js csv)"
  "handleAllPages (specHelpers R build convert fuel chunked)
     = (\<lambda>u response js csv flag.
          specHandleAllPages R
            (if truthy_bool flag then abstractArrayToString convert else id)
            fuel u response js csv)"
  "handleAllPagesInChunks (specHelpers R build convert fuel chunked) = chunked"
  by (simp_all add: specHelpers_def)

lemma defaults_worksRequest:
  "worksRequest (specHelpers R plainUrl convert fuel chunked) defaultParameters
     = (Some (Inr (\<lparr>url_base = ''https://api.openalex.org/works'', url_per_page = Some 25,
                     url_cursor = ''*'', url_all = False\<rparr>, Some 1)), [])"
  by (simp add: worksRequest_def specHelpers_def defaultParameters_def specValidate_def
      truthy_bool_def truthy_num_def specGetCursorByPage_def boundedWindow_def ifNum_def
      specAppendCursorToUrl_def plainUrl_def api_url_def)

lemma defaults_listRequest:
  "listRequest ''authors'' (specHelpers R plainUrl convert fuel chunked) defaultParameters
     = (Some (Inr (\<lparr>url_base = ''https://api.openalex.org/authors'', url_per_page = Some 25,
                     url_cursor = ''*'', url_all = False\<rparr>, Some 1)), [])"
  by (simp add: listRequest_def specHelpers_def defaultParameters_def specValidate_def
      truthy_bool_def truthy_num_def specGetCursorByPage_def boundedWindow_def ifNum_def
      specAppendCursorToUrl_def plainUrl_def api_url_def)

lemma works_rejects:
  "worksRequest h sp = (Some (Inl e), t) \<Longrightarrow>
   works h sp = \<lparr>settled = Some (Inl e), trace = t, detached = None\<rparr>"
  by (simp add: works_def)

lemma worksRequest_rejects:
  assumes "validateParameters h (retriveAllPages sp) (startPage sp) (endPage sp) (searchField sp)
             (chunkSize sp) (toCsv sp) (toJson sp) = None"
    and "url = buildUrl h api_url ''works'' (search sp) (searchField sp) (filter_by sp)
                 (groupBy sp) (sortBy sp)"
  shows "getCursorByPage h url (page sp) (perPage sp) = (Some (Inl e), t) \<Longrightarrow>
         worksRequest h sp = (Some (Inl e), t)"
    and "getCursorByPage h url (page sp) (perPage sp) = (Some (Inr c), t) \<Longrightarrow>
         boundedWindow (startPage sp) (endPage sp) = Some w \<Longrightarrow>
         getCursorByPage h url (startPage sp)
           (if truthy_bool (retriveAllPages sp) then Some 200 else perPage sp)
           = (Some (Inl e), t') \<Longrightarrow>
         worksRequest h sp = (Some (Inl e), t @ t')"
  using assms by (simp_all add: worksRequest_def Let_def)

lemma works_handlers:
  assumes "worksRequest h sp = (Some (Inr (u, p)), t)"
    and "status (GET h u) = 200"
    and "first = processPage sp (convertAbstractArrayToString h) p (data (GET h u))"
  shows "boundedWindow (startPage sp) (endPage sp) = Some (s, e) \<Longrightarrow>
         settled (works h sp)
           = fst (handleMultiplePages h s e u ((GET h u)\<lparr>data := first\<rparr>) (toJson sp) (toCsv sp)
                    (AbstractArrayToString sp))"
    and "boundedWindow (startPage sp) (endPage sp) = None \<Longrightarrow>
         truthy_bool (retriveAllPages sp) \<Longrightarrow> ifNum (chunkSize sp) = None \<Longrightarrow>
         settled (works h sp)
           = fst (handleAllPages h u ((GET h u)\<lparr>data := first\<rparr>) (toJson sp) (toCsv sp)
                    (AbstractArrayToString sp))"
  using assms by (simp_all add: works_def worksResponse_def Let_def split: prod.splits)

lemma listOf_rejects:
  "listRequest collection h sp = (Some (Inl e), t) \<Longrightarrow>
   listOf collection h sp = \<lparr>settled = Some (Inl e), trace = t, detached = None\<rparr>"
  by (simp add: listOf_def)

lemma listRequest_rejects:
  assumes "validateAuthorParameters h (retriveAllPages sp) (startPage sp) (endPage sp)
             (searchField sp) = None"
    and "url = buildUrl h api_url collection (search sp) (searchField sp) (filter_by sp)
                 (groupBy sp) (sortBy sp)"
  shows "getCursorByPage h url (page sp) (perPage sp) = (Some (Inl e), t) \<Longrightarrow>
         listRequest collection h sp = (Some (Inl e), t)"
    and "getCursorByPage h url (page sp) (perPage sp) = (Some (Inr c), t) \<Longrightarrow>
         boundedWindow (startPage sp) (endPage sp) = Some w \<Longrightarrow>
         getCursorByPage h url (startPage sp)
           (if truthy_bool (retriveAllPages sp) then Some 200 else perPage sp)
           = (Some (Inl e), t') \<Longrightarrow>
         listRequest collection h sp = (Some (Inl e), t @ t')"
  using assms by (simp_all add: listRequest_def Let_def)

lemma listOf_handlers:
  assumes "listRequest collection h sp = (Some (Inr (u, p)), t)"
    and "status (GET h u) = 200"
    and "first = (data (GET h u))
                   \<lparr>meta := (meta (data (GET h u)))
                      \<lparr>meta_page := (case p of None \<Rightarrow> 1 | Some n \<Rightarrow> n)\<rparr>\<rparr>"
  shows "boundedWindow (startPage sp) (endPage sp) = Some (s, e) \<Longrightarrow>
         settled (listOf collection h sp)
           = fst (handleMultipleAuthorsPages h s e u ((GET h u)\<lparr>data := first\<rparr>) (toJson sp)
                    (toCsv sp))"
    and "boundedWindow (startPage sp) (endPage sp) = None \<Longrightarrow>
         truthy_bool (retriveAllPages sp) \<Longrightarrow>
         settled (listOf collection h sp)
           = fst (handleAllAuthorsPages h u ((GET h u)\<lparr>data := first\<rparr>) (toJson sp) (toCsv sp))"
  using assms by (simp_all add: listOf_def listResponse_def Let_def split: prod.splits)

text \<open>
  C2, amended.  The fetches that index.ts itself issues: \<open>author\<close>, \<open>source\<close>,
  \<open>institution\<close>, \<open>topic\<close>, \<open>ngram\<close> and \<open>autoCompleteWorks\<close> throw
  \<open>Error <status>: <statusText>\<close> for every response status other than 200, and so do
  \<open>works\<close>, \<open>authors\<close>, \<open>sources\<close>, \<open>institutions\<close> and \<open>topics\<close> for the response to their
  page request; nothing is done after the request.  Every status that is neither 2xx
  nor 404 is such a status.  The fetches of the cursor resolution and of the traversal
  are issued by \<open>getCursorByPage\<close> and by the page handlers: the list methods await the
  cursor resolution, both times, and return the promise of \<open>handleMultiplePages\<close> and of
  \<open>handleAllPages\<close> (and of their namesakes), and they catch nothing, so the error that
  one of these raises is the error the caller receives, and nothing is done after it.
  \<open>work\<close> never throws: for a status that is neither 200 nor 404 it logs
  \<open>Error <status>: <statusText>\<close> and returns the placeholder.
\<close>

theorem C2_non_200_throws:
  "((status (api (entityUrl ''authors'' ident ext)) \<noteq> 200 \<longrightarrow>
      author api ident ext
        = (Inl (httpError (api (entityUrl ''authors'' ident ext))),
           [Get (entityUrl ''authors'' ident ext)]))
   \<and> (status (api (entityUrl ''sources'' ident ext)) \<noteq> 200 \<longrightarrow>
      source api ident ext
        = (Inl (httpError (api (entityUrl ''sources'' ident ext))),
           [Get (entityUrl ''sources'' ident ext)]))
   \<and> (status (api (entityUrl ''institutions'' ident ext)) \<noteq> 200 \<longrightarrow>
      institution api ident ext
        = (Inl (httpError (api (entityUrl ''institutions'' ident ext))),
           [Get (entityUrl ''institutions'' ident ext)]))
   \<and> (ident \<noteq> [] \<and> status (api (api_url @ ''/topics/'' @ ident)) \<noteq> 200 \<longrightarrow>
      topic api ident
        = (Inl (httpError (api (api_url @ ''/topics/'' @ ident))),
           [Get (api_url @ ''/topics/'' @ ident)]))
   \<and> (status (api (api_url @ ''/works/'' @ ident @ ''/ngram'')) \<noteq> 200 \<longrightarrow>
      ngram api ident
        = (Inl (httpError (api (api_url @ ''/works/'' @ ident @ ''/ngram''))),
           [Get (api_url @ ''/works/'' @ ident @ ''/ngram'')]))
   \<and> (status (complete (api_url @ ''/autocomplete/works?q='' @ q)) \<noteq> 200 \<longrightarrow>
      autoCompleteWorks complete q
        = (Inl (httpError (complete (api_url @ ''/autocomplete/works?q='' @ q))),
           [Get (api_url @ ''/autocomplete/works?q='' @ q)]))
   \<and> (worksRequest h sp = (Some (Inr (u, p)), t) \<and> status (GET h u) \<noteq> 200 \<longrightarrow>
      works h sp
        = \<lparr>settled = Some (Inl (httpError (GET h u))), trace = t @ [Get u], detached = None\<rparr>)
   \<and> (listRequest collection h sp = (Some (Inr (u, p)), t) \<and> status (GET h u) \<noteq> 200 \<longrightarrow>
      listOf collection h sp
        = \<lparr>settled = Some (Inl (httpError (GET h u))), trace = t @ [Get u], detached = None\<rparr>)
   \<and> httpError r = Error (''Error '' @ string_of_int (status r) @ '': '' @ statusText r)
   \<and> (\<exists>v. fst (work api ident ext) = Inr v)
   \<and> (status (api (entityUrl ''works'' ident ext)) \<noteq> 200
        \<and> status (api (entityUrl ''works'' ident ext)) \<noteq> 404 \<longrightarrow>
      work api ident ext
        = (Inr (emptyWork ident),
           [Get (entityUrl ''works'' ident ext),
            ConsoleLog (''Error '' @ string_of_int (status (api (entityUrl ''works'' ident ext)))
                          @ '': '' @ statusText (api (entityUrl ''works'' ident ext)))])))
   \<and> ((worksRequest h sp = (Some (Inl e), t) \<longrightarrow>
        works h sp = \<lparr>settled = Some (Inl e), trace = t, detached = None\<rparr>)
   \<and> (validateParameters h (retriveAllPages sp) (startPage sp) (endPage sp) (searchField sp)
          (chunkSize sp) (toCsv sp) (toJson sp) = None
        \<and> url = buildUrl h api_url ''works'' (search sp) (searchField sp) (filter_by sp)
                   (groupBy sp) (sortBy sp)
        \<and> getCursorByPage h url (page sp) (perPage sp) = (Some (Inl e), t) \<longrightarrow>
      worksRequest h sp = (Some (Inl e), t))
   \<and> (validateParameters h (retriveAllPages sp) (startPage sp) (endPage sp) (searchField sp)
          (chunkSize sp) (toCsv sp) (toJson sp) = None
        \<and> url = buildUrl h api_url ''works'' (search sp) (searchField sp) (filter_by sp)
                   (groupBy sp) (sortBy sp)
        \<and> getCursorByPage h url (page sp) (perPage sp) = (Some (Inr cursor), t)
        \<and> boundedWindow (startPage sp) (endPage sp) = Some w
        \<and> getCursorByPage h url (startPage sp)
             (if truthy_bool (retriveAllPages sp) then Some 200 else perPage sp)
            = (Some (Inl e), later) \<longrightarrow>
      worksRequest h sp = (Some (Inl e), t @ later))
   \<and> (worksRequest h sp = (Some (Inr (u, p)), t) \<and> status (GET h u) = 200
        \<and> first = processPage sp (convertAbstractArrayToString h) p (data (GET h u))
        \<and> boundedWindow (startPage sp) (endPage sp) = Some (lo, hi) \<longrightarrow>
      settled (works h sp)
        = fst (handleMultiplePages h lo hi u ((GET h u)\<lparr>data := first\<rparr>) (toJson sp)
                 (toCsv sp) (AbstractArrayToString sp)))
   \<and> (worksRequest h sp = (Some (Inr (u, p)), t) \<and> status (GET h u) = 200
        \<and> first = processPage sp (convertAbstractArrayToString h) p (data (GET h u))
        \<and> boundedWindow (startPage sp) (endPage sp) = None
        \<and> truthy_bool (retriveAllPages sp) \<and> ifNum (chunkSize sp) = None \<longrightarrow>
      settled (works h sp)
        = fst (handleAllPages h u ((GET h u)\<lparr>data := first\<rparr>) (toJson sp) (toCsv sp)
                 (AbstractArrayToString sp)))
   \<and> (listRequest collection h sp = (Some (Inl e), t) \<longrightarrow>
      listOf collection h sp = \<lparr>settled = Some (Inl e), trace = t, detached = None\<rparr>)
   \<and> (validateAuthorParameters h (retriveAllPages sp) (startPage sp) (endPage sp)
          (searchField sp) = None
        \<and> url = buildUrl h api_url collection (search sp) (searchField sp) (filter_by sp)
                   (groupBy sp) (sortBy sp)
        \<and> getCursorByPage h url (page sp) (perPage sp) = (Some (Inl e), t) \<longrightarrow>
      listRequest collection h sp = (Some (Inl e), t))
   \<and> (validateAuthorParameters h (retriveAllPages sp) (startPage sp) (endPage sp)
          (searchField sp) = None
        \<and> url = buildUrl h api_url collection (search sp) (searchField sp) (filter_by sp)
                   (groupBy sp) (sortBy sp)
        \<and> getCursorByPage h url (page sp) (perPage sp) = (Some (Inr cursor), t)
        \<and> boundedWindow (startPage sp) (endPage sp) = Some w
        \<and> getCursorByPage h url (startPage sp)
             (if truthy_bool (retriveAllPages sp) then Some 200 else perPage sp)
            = (Some (Inl e), later) \<longrightarrow>
      listRequest collection h sp = (Some (Inl e), t @ later))
   \<and> (listRequest collection h sp = (Some (Inr (u, p)), t) \<and> status (GET h u) = 200
        \<and> labelled = (data (GET h u))
                        \<lparr>meta := (meta (data (GET h u)))
                           \<lparr>meta_page := (case p of None \<Rightarrow> 1 | Some n \<Rightarrow> n)\<rparr>\<rparr>
        \<and> boundedWindow (startPage sp) (endPage sp) = Some (lo, hi) \<longrightarrow>
      settled (listOf collection h sp)
        = fst (handleMultipleAuthorsPages h lo hi u ((GET h u)\<lparr>data := labelled\<rparr>)
                 (toJson sp) (toCsv sp)))
   \<and> (listRequest collection h sp = (Some (Inr (u, p)), t) \<and> status (GET h u) = 200
        \<and> labelled = (data (GET h u))
                        \<lparr>meta := (meta (data (GET h u)))
                           \<lparr>meta_page := (case p of None \<Rightarrow> 1 | Some n \<Rightarrow> n)\<rparr>\<rparr>
        \<and> boundedWindow (startPage sp) (endPage sp) = None
        \<and> truthy_bool (retriveAllPages sp) \<longrightarrow>
      settled (listOf collection h sp)
        = fst (handleAllAuthorsPages h u ((GET h u)\<lparr>data := labelled\<rparr>) (toJson sp)
                 (toCsv sp))))"
proof (rule conjI)
  show "(status (api (entityUrl ''authors'' ident ext)) \<noteq> 200 \<longrightarrow>
      author api ident ext
        = (Inl (httpError (api (entityUrl ''authors'' ident ext))),
           [Get (entityUrl ''authors'' ident ext)]))
   \<and> (status (api (entityUrl ''sources'' ident ext)) \<noteq> 200 \<longrightarrow>
      source api ident ext
        = (Inl (httpError (api (entityUrl ''sources'' ident ext))),
           [Get (entityUrl ''sources'' ident ext)]))
   \<and> (status (api (entityUrl ''institutions'' ident ext)) \<noteq> 200 \<longrightarrow>
      institution api ident ext
        = (Inl (httpError (api (entityUrl ''institutions'' ident ext))),
           [Get (entityUrl ''institutions'' ident ext)]))
   \<and> (ident \<noteq> [] \<and> status (api (api_url @ ''/topics/'' @ ident)) \<noteq> 200 \<longrightarrow>
      topic api ident
        = (Inl (httpError (api (api_url @ ''/topics/'' @ ident))),
           [Get (api_url @ ''/topics/'' @ ident)]))
   \<and> (status (api (api_url @ ''/works/'' @ ident @ ''/ngram'')) \<noteq> 200 \<longrightarrow>
      ngram api ident
        = (Inl (httpError (api (api_url @ ''/works/'' @ ident @ ''/ngram''))),
           [Get (api_url @ ''/works/'' @ ident @ ''/ngram'')]))
   \<and> (status (complete (api_url @ ''/autocomplete/works?q='' @ q)) \<noteq> 200 \<longrightarrow>
      autoCompleteWorks complete q
        = (Inl (httpError (complete (api_url @ ''/autocomplete/works?q='' @ q))),
           [Get (api_url @ ''/autocomplete/works?q='' @ q)]))
   \<and> (worksRequest h sp = (Some (Inr (u, p)), t) \<and> status (GET h u) \<noteq> 200 \<longrightarrow>
      works h sp
        = \<lparr>settled = Some (Inl (httpError (GET h u))), trace = t @ [Get u], detached = None\<rparr>)
   \<and> (listRequest collection h sp = (Some (Inr (u, p)), t) \<and> status (GET h u) \<noteq> 200 \<longrightarrow>
      listOf collection h sp
        = \<lparr>settled = Some (Inl (httpError (GET h u))), trace = t @ [Get u], detached = None\<rparr>)
   \<and> httpError r = Error (''Error '' @ string_of_int (status r) @ '': '' @ statusText r)
   \<and> (\<exists>v. fst (work api ident ext) = Inr v)
   \<and> (status (api (entityUrl ''works'' ident ext)) \<noteq> 200
        \<and> status (api (entityUrl ''works'' ident ext)) \<noteq> 404 \<longrightarrow>
      work api ident ext
        = (Inr (emptyWork ident),
           [Get (entityUrl ''works'' ident ext),
            ConsoleLog (''Error '' @ string_of_int (status (api (entityUrl ''works'' ident ext)))
                          @ '': '' @ statusText (api (entityUrl ''works'' ident ext)))]))"
    by (simp add: author_def source_def institution_def topic_def ngram_def work_def Let_def
        autoCompleteWorks_def works_non_200 listOf_non_200 httpError_def)
next
  note facts = works_rejects worksRequest_rejects works_handlers
    listOf_rejects listRequest_rejects listOf_handlers
  show "(worksRequest h sp = (Some (Inl e), t) \<longrightarrow>
        works h sp = \<lparr>settled = Some (Inl e), trace = t, detached = None\<rparr>)
   \<and> (validateParameters h (retriveAllPages sp) (startPage sp) (endPage sp) (searchField sp)
          (chunkSize sp) (toCsv sp) (toJson sp) = None
        \<and> url = buildUrl h api_url ''works'' (search sp) (searchField sp) (filter_by sp)
                   (groupBy sp) (sortBy sp)
        \<and> getCursorByPage h url (page sp) (perPage sp) = (Some (Inl e), t) \<longrightarrow>
      worksRequest h sp = (Some (Inl e), t))
   \<and> (validateParameters h (retriveAllPages sp) (startPage sp) (endPage sp) (searchField sp)
          (chunkSize sp) (toCsv sp) (toJson sp) = None
        \<and> url = buildUrl h api_url ''works'' (search sp) (searchField sp) (filter_by sp)
                   (groupBy sp) (sortBy sp)
        \<and> getCursorByPage h url (page sp) (perPage sp) = (Some (Inr cursor), t)
        \<and> boundedWindow (startPage sp) (endPage sp) = Some w
        \<and> getCursorByPage h url (startPage sp)
             (if truthy_bool (retriveAllPages sp) then Some 200 else perPage sp)
            = (Some (Inl e), later) \<longrightarrow>
      worksRequest h sp = (Some (Inl e), t @ later))
   \<and> (worksRequest h sp = (Some (Inr (u, p)), t) \<and> status (GET h u) = 200
        \<and> first = processPage sp (convertAbstractArrayToString h) p (data (GET h u))
        \<and> boundedWindow (startPage sp) (endPage sp) = Some (lo, hi) \<longrightarrow>
      settled (works h sp)
        = fst (handleMultiplePages h lo hi u ((GET h u)\<lparr>data := first\<rparr>) (toJson sp)
                 (toCsv sp) (AbstractArrayToString sp)))
   \<and> (worksRequest h sp = (Some (Inr (u, p)), t) \<and> status (GET h u) = 200
        \<and> first = processPage sp (convertAbstractArrayToString h) p (data (GET h u))
        \<and> boundedWindow (startPage sp) (endPage sp) = None
        \<and> truthy_bool (retriveAllPages sp) \<and> ifNum (chunkSize sp) = None \<longrightarrow>
      settled (works h sp)
        = fst (handleAllPages h u ((GET h u)\<lparr>data := first\<rparr>) (toJson sp) (toCsv sp)
                 (AbstractArrayToString sp)))
   \<and> (listRequest collection h sp = (Some (Inl e), t) \<longrightarrow>
      listOf collection h sp = \<lparr>settled = Some (Inl e), trace = t, detached = None\<rparr>)
   \<and> (validateAuthorParameters h (retriveAllPages sp) (startPage sp) (endPage sp)
          (searchField sp) = None
        \<and> url = buildUrl h api_url collection (search sp) (searchField sp) (filter_by sp)
                   (groupBy sp) (sortBy sp)
        \<and> getCursorByPage h url (page sp) (perPage sp) = (Some (Inl e), t) \<longrightarrow>
      listRequest collection h sp = (Some (Inl e), t))
   \<and> (validateAuthorParameters h (retriveAllPages sp) (startPage sp) (endPage sp)
          (searchField sp) = None
        \<and> url = buildUrl h api_url collection (search sp) (searchField sp) (filter_by sp)
                   (groupBy sp) (sortBy sp)
        \<and> getCursorByPage h url (page sp) (perPage sp) = (Some (Inr cursor), t)
        \<and> boundedWindow (startPage sp) (endPage sp) = Some w
        \<and> getCursorByPage h url (startPage sp)
             (if truthy_bool (retriveAllPages sp) then Some 200 else perPage sp)
            = (Some (Inl e), later) \<longrightarrow>
      listRequest collection h sp = (Some (Inl e), t @ later))
   \<and> (listRequest collection h sp = (Some (Inr (u, p)), t) \<and> status (GET h u) = 200
        \<and> labelled = (data (GET h u))
                        \<lparr>meta := (meta (data (GET h u)))
                           \<lparr>meta_page := (case p of None \<Rightarrow> 1 | Some n \<Rightarrow> n)\<rparr>\<rparr>
        \<and> boundedWindow (startPage sp) (endPage sp) = Some (lo, hi) \<longrightarrow>
      settled (listOf collection h sp)
        = fst (handleMultipleAuthorsPages h lo hi u ((GET h u)\<lparr>data := labelled\<rparr>)
                 (toJson sp) (toCsv sp)))
   \<and> (listRequest collection h sp = (Some (Inr (u, p)), t) \<and> status (GET h u) = 200
        \<and> labelled = (data (GET h u))
                        \<lparr>meta := (meta (data (GET h u)))
                           \<lparr>meta_page := (case p of None \<Rightarrow> 1 | Some n \<Rightarrow> n)\<rparr>\<rparr>
        \<and> boundedWindow (startPage sp) (endPage sp) = None
        \<and> truthy_bool (retriveAllPages sp) \<longrightarrow>
      settled (listOf collection h sp)
        = fst (handleAllAuthorsPages h u ((GET h u)\<lparr>data := labelled\<rparr>) (toJson sp)
                 (toCsv sp)))"
    apply (intro conjI impI)
             apply ((elim conjE)?, rule facts(1); assumption)
            apply ((elim conjE)?, rule facts(2); assumption)
           apply ((elim conjE)?, rule facts(3); assumption)
          apply ((elim conjE)?, rule facts(4); assumption)
         apply ((elim conjE)?, rule facts(5); assumption)
        apply ((elim conjE)?, rule facts(6); assumption)
       apply ((elim conjE)?, rule facts(7); assumption)
      apply ((elim conjE)?, rule facts(8); assumption)
     apply ((elim conjE)?, rule facts(9); assumption)
    apply ((elim conjE)?, rule facts(10); assumption)
    done
qed

theorem C2_non_200_throws_witness:
  "author serverError ''A1'' None
     = (Inl (Error ''Error 500: Internal Server Error''),
        [Get ''https://api.openalex.org/authors/A1''])
   \<and> topic serverError ''T1''
     = (Inl (Error ''Error 500: Internal Server Error''),
        [Get ''https://api.openalex.org/topics/T1''])
   \<and> works (specHelpers failing plainUrl wordsOf 0 idle) defaultParameters
     = \<lparr>settled = Some (Inl (Error ''Error 500: Internal Server Error'')),
        trace = [Get \<lparr>url_base = ''https://api.openalex.org/works'', url_per_page = Some 25,
                      url_cursor = ''*'', url_all = False\<rparr>],
        detached = None\<rparr>
   \<and> authors (specHelpers failing plainUrl wordsOf 0 idle) defaultParameters
     = \<lparr>settled = Some (Inl (Error ''Error 500: Internal Server Error'')),
        trace = [Get \<lparr>url_base = ''https://api.openalex.org/authors'', url_per_page = Some 25,
                      url_cursor = ''*'', url_all = False\<rparr>],
        detached = None\<rparr>
   \<and> works (specHelpers failing plainUrl wordsOf 0 idle) (defaultParameters\<lparr>page := Some 2\<rparr>)
     = \<lparr>settled = Some (Inl (Error ''Error 500: Internal Server Error'')),
        trace = [Get \<lparr>url_base = ''https://api.openalex.org/works'', url_per_page = Some 25,
                      url_cursor = ''*'', url_all = False\<rparr>],
        detached = None\<rparr>
   \<and> settled (works (specHelpers breaking plainUrl wordsOf 0 idle)
                (defaultParameters\<lparr>startPage := Some 1, endPage := Some 2\<rparr>))
     = Some (Inl (Error ''Error 500: Internal Server Error''))"
proof -
  let ?u = "\<lparr>url_base = ''https://api.openalex.org/works'', url_per_page = Some 25,
             url_cursor = ''*'', url_all = False\<rparr>"
  have lookups: "author serverError ''A1'' None
     = (Inl (Error ''Error 500: Internal Server Error''),
        [Get ''https://api.openalex.org/authors/A1''])
   \<and> topic serverError ''T1''
     = (Inl (Error ''Error 500: Internal Server Error''),
        [Get ''https://api.openalex.org/topics/T1''])
   \<and> works (specHelpers failing plainUrl wordsOf 0 idle) defaultParameters
     = \<lparr>settled = Some (Inl (Error ''Error 500: Internal Server Error'')),
        trace = [Get ?u], detached = None\<rparr>
   \<and> authors (specHelpers failing plainUrl wordsOf 0 idle) defaultParameters
     = \<lparr>settled = Some (Inl (Error ''Error 500: Internal Server Error'')),
        trace = [Get \<lparr>url_base = ''https://api.openalex.org/authors'', url_per_page = Some 25,
                      url_cursor = ''*'', url_all = False\<rparr>],
        detached = None\<rparr>"
    using
      C2_non_200_throws [where api = serverError and ident = "''A1''" and ext = None
        and complete = serverError and q = "''education''" and collection = "''authors''"
        and h = "specHelpers failing plainUrl wordsOf 0 idle" and sp = defaultParameters
        and u = ?u and p = "Some 1" and t = "[]" and r = "serverError []", THEN conjunct1]
      C2_non_200_throws [where api = serverError and ident = "''T1''" and ext = None
        and complete = serverError and q = "''education''"
        and h = "specHelpers failing plainUrl wordsOf 0 idle" and sp = defaultParameters
        and collection = "''authors''"
        and u = "\<lparr>url_base = ''https://api.openalex.org/authors'', url_per_page = Some 25,
                   url_cursor = ''*'', url_all = False\<rparr>"
        and p = "Some 1" and t = "[]" and r = "serverError []", THEN conjunct1]
    by (simp add: defaults_worksRequest defaults_listRequest authors_def serverError_def
        entityUrl_def api_url_def string_of_int_500 specHelpers_GET failing_def httpError_def)
  let ?F = "specHelpers failing plainUrl wordsOf 0 idle"
  let ?sp = "defaultParameters\<lparr>page := Some 2\<rparr>"
  note resolver = C2_non_200_throws [where h = ?F and sp = ?sp
      and url = "''https://api.openalex.org/works''"
      and e = "Error ''Error 500: Internal Server Error''" and t = "[Get ?u]", THEN conjunct2]
  from resolver [THEN conjunct2, THEN conjunct1]
  have "worksRequest ?F ?sp = (Some (Inl (Error ''Error 500: Internal Server Error'')), [Get ?u])"
    by (simp add: specHelpers_simps defaultParameters_def specValidate_def truthy_bool_def
        truthy_num_def plainUrl_def api_url_def specGetCursorByPage_def fetchPage_def
        failing_def httpError_def string_of_int_500)
  with resolver [THEN conjunct1]
  have first: "works ?F ?sp
     = \<lparr>settled = Some (Inl (Error ''Error 500: Internal Server Error'')), trace = [Get ?u],
        detached = None\<rparr>"
    by simp
  let ?B = "specHelpers breaking plainUrl wordsOf 0 idle"
  let ?win = "defaultParameters\<lparr>startPage := Some 1, endPage := Some 2\<rparr>"
  have request: "worksRequest ?B ?win = (Some (Inr (?u, Some 1)), [])"
    by (simp add: worksRequest_def specHelpers_simps defaultParameters_def specValidate_def
        truthy_bool_def truthy_num_def specGetCursorByPage_def boundedWindow_def ifNum_def
        specAppendCursorToUrl_def plainUrl_def api_url_def)
  have ok: "status (GET ?B ?u) = 200"
    by (simp add: specHelpers_GET breaking_def serveTable_def fivePages_def)
  have w: "boundedWindow (startPage ?win) (endPage ?win) = Some (1, 2)"
    by (simp add: boundedWindow_def ifNum_def)
  from C2_non_200_throws [where h = ?B and sp = ?win and u = ?u and p = "Some 1" and t = "[]"
      and lo = 1 and hi = 2
      and first = "processPage ?win (convertAbstractArrayToString ?B) (Some 1)
                     (data (GET ?B ?u))",
      THEN conjunct2, THEN conjunct2, THEN conjunct2, THEN conjunct2, THEN conjunct1]
    request ok w
  have "settled (works ?B ?win)
     = fst (handleMultiplePages ?B 1 2 ?u
              ((GET ?B ?u)\<lparr>data := processPage ?win (convertAbstractArrayToString ?B) (Some 1)
                                     (data (GET ?B ?u))\<rparr>)
              (toJson ?win) (toCsv ?win) (AbstractArrayToString ?win))"
    by simp
  also have "\<dots> = Some (Inl (Error ''Error 500: Internal Server Error''))"
    by (simp add: specHelpers_simps specHelpers_GET specHandleMultiplePages_def processPage_def
        Let_def defaultParameters_def truthy_bool_def breaking_def serveTable_def fivePages_def
        pageOf_def fetchPage_def failing_def httpError_def string_of_int_500)
  finally have second: "settled (works ?B ?win)
     = Some (Inl (Error ''Error 500: Internal Server Error''))" .
  from lookups first second show ?thesis by simp
qed


lemma abstractArrayToString_fields:
  "abstractArrayToString convert w ''abstract_inverted_index'' = None
   \<and> abstractArrayToString convert w ''abstract''
       = (case w ''abstract_inverted_index'' of
            None \<Rightarrow> w ''abstract''
          | Some idx \<Rightarrow> if truthy_json idx then Some (JStr (convert idx)) else w ''abstract'')
   \<and> (\<forall>k. k \<noteq> ''abstract'' \<and> k \<noteq> ''abstract_inverted_index''
          \<longrightarrow> abstractArrayToString convert w k = w k)"
  by (simp add: abstractArrayToString_def Let_def split: option.splits)

text \<open>
  C10.  A \<open>works\<close> request with \<open>AbstractArrayToString\<close> set, whose page request is
  answered with status 200: let \<open>d2\<close> be the response's page with \<open>meta.page\<close> set and every
  result passed through the conversion.  The facade returns \<open>d2\<close> (with \<open>meta.url\<close>) when
  it returns the page itself, and hands \<open>d2\<close> to \<open>handleMultiplePages\<close> or \<open>handleAllPages\<close>
  when the request is a bounded window or a monolithic drain.  \<open>d2\<close> has as many results
  as the response, in the same order; each has no \<open>abstract_inverted_index\<close>; its
  \<open>abstract\<close> is the converted text when the index was there (truthy), and is untouched
  otherwise; every other field is the response's.
\<close>

theorem C10_abstract_conversion:
  assumes flag: "truthy_bool (AbstractArrayToString sp)"
    and request: "worksRequest h sp = (Some (Inr (u, p)), t)"
    and ok: "status (GET h u) = 200"
    and d2: "d2 = (data (GET h u))
                    \<lparr>meta := (meta (data (GET h u)))
                       \<lparr>meta_page := (case p of None \<Rightarrow> 1 | Some n \<Rightarrow> n)\<rparr>,
                     results := map (abstractArrayToString (convertAbstractArrayToString h))
                                  (results (data (GET h u)))\<rparr>"
  shows "settled (works h sp)
          = (case boundedWindow (startPage sp) (endPage sp) of
               Some (s, e) \<Rightarrow>
                 fst (handleMultiplePages h s e u ((GET h u)\<lparr>data := d2\<rparr>) (toJson sp) (toCsv sp)
                        (AbstractArrayToString sp))
             | None \<Rightarrow>
                 if truthy_bool (retriveAllPages sp) \<and> ifNum (chunkSize sp) = None
                 then fst (handleAllPages h u ((GET h u)\<lparr>data := d2\<rparr>) (toJson sp) (toCsv sp)
                             (AbstractArrayToString sp))
                 else Some (Inr (d2\<lparr>meta := (meta d2)\<lparr>meta_url := Some u\<rparr>\<rparr>)))
       \<and> length (results d2) = length (results (data (GET h u)))
       \<and> (\<forall>i < length (results (data (GET h u))).
            (results d2 ! i) ''abstract_inverted_index'' = None
            \<and> (results d2 ! i) ''abstract''
                = (case (results (data (GET h u)) ! i) ''abstract_inverted_index'' of
                     None \<Rightarrow> (results (data (GET h u)) ! i) ''abstract''
                   | Some idx \<Rightarrow>
                       if truthy_json idx
                       then Some (JStr (convertAbstractArrayToString h idx))
                       else (results (data (GET h u)) ! i) ''abstract'')
            \<and> (\<forall>k. k \<noteq> ''abstract'' \<and> k \<noteq> ''abstract_inverted_index''
                   \<longrightarrow> (results d2 ! i) k = (results (data (GET h u)) ! i) k))"
proof -
  have a: "settled (works h sp)
          = (case boundedWindow (startPage sp) (endPage sp) of
               Some (s, e) \<Rightarrow>
                 fst (handleMultiplePages h s e u ((GET h u)\<lparr>data := d2\<rparr>) (toJson sp) (toCsv sp)
                        (AbstractArrayToString sp))
             | None \<Rightarrow>
                 if truthy_bool (retriveAllPages sp) \<and> ifNum (chunkSize sp) = None
                 then fst (handleAllPages h u ((GET h u)\<lparr>data := d2\<rparr>) (toJson sp) (toCsv sp)
                             (AbstractArrayToString sp))
                 else Some (Inr (d2\<lparr>meta := (meta d2)\<lparr>meta_url := Some u\<rparr>\<rparr>)))"
    using flag request ok
    by (cases "boundedWindow (startPage sp) (endPage sp)")
       (auto simp: works_def worksResponse_def processPage_def Let_def d2 split: prod.splits)
  have b: "length (results d2) = length (results (data (GET h u)))"
    by (simp add: d2)
  have c: "\<forall>i < length (results (data (GET h u))).
            (results d2 ! i) ''abstract_inverted_index'' = None
            \<and> (results d2 ! i) ''abstract''
                = (case (results (data (GET h u)) ! i) ''abstract_inverted_index'' of
                     None \<Rightarrow> (results (data (GET h u)) ! i) ''abstract''
                   | Some idx \<Rightarrow>
                       if truthy_json idx
                       then Some (JStr (convertAbstractArrayToString h idx))
                       else (results (data (GET h u)) ! i) ''abstract'')
            \<and> (\<forall>k. k \<noteq> ''abstract'' \<and> k \<noteq> ''abstract_inverted_index''
                   \<longrightarrow> (results d2 ! i) k = (results (data (GET h u)) ! i) k)"
    using abstractArrayToString_fields by (simp add: d2)
  from a b c show ?thesis by blast
qed

lemma abstract_worksRequest:
  "worksRequest (specHelpers R plainUrl convert fuel chunked)
     (defaultParameters\<lparr>AbstractArrayToString := Some True\<rparr>)
     = (Some (Inr (\<lparr>url_base = ''https://api.openalex.org/works'', url_per_page = Some 25,
                     url_cursor = ''*'', url_all = False\<rparr>, Some 1)), [])"
  by (simp add: worksRequest_def specHelpers_def defaultParameters_def specValidate_def
      truthy_bool_def truthy_num_def specGetCursorByPage_def boundedWindow_def ifNum_def
      specAppendCursorToUrl_def plainUrl_def api_url_def)

theorem C10_abstract_conversion_witness:
  "\<exists>d. settled (works (specHelpers (serveTable onePage) plainUrl wordsOf 0 idle)
                   (defaultParameters\<lparr>AbstractArrayToString := Some True\<rparr>))
          = Some (Inr d)
       \<and> length (results d) = 2
       \<and> (results d ! 0) ''abstract_inverted_index'' = None
       \<and> (results d ! 0) ''abstract'' = Some (JStr ''Hello world '')
       \<and> (results d ! 0) ''id'' = Some (JStr ''W1'')
       \<and> (results d ! 1) ''abstract_inverted_index'' = None
       \<and> (results d ! 1) ''abstract'' = None
       \<and> (results d ! 1) ''id'' = Some (JStr ''W2'')"
proof -
  let ?h = "specHelpers (serveTable onePage) plainUrl wordsOf 0 idle"
  let ?sp = "defaultParameters\<lparr>AbstractArrayToString := Some True\<rparr>"
  let ?u = "\<lparr>url_base = ''https://api.openalex.org/works'', url_per_page = Some 25,
             url_cursor = ''*'', url_all = False\<rparr>"
  let ?d2 = "(data (GET ?h ?u))
               \<lparr>meta := (meta (data (GET ?h ?u)))\<lparr>meta_page := 1\<rparr>,
                results := map (abstractArrayToString (convertAbstractArrayToString ?h))
                             (results (data (GET ?h ?u)))\<rparr>"
  have flag: "truthy_bool (AbstractArrayToString ?sp)"
    by (simp add: truthy_bool_def)
  have ok: "status (GET ?h ?u) = 200"
    by (simp add: specHelpers_GET serveTable_def onePage_def)
  have rs: "results (data (GET ?h ?u)) = [indexed, unindexed]"
    by (simp add: specHelpers_GET serveTable_def onePage_def pageOf_def)
  have conv: "convertAbstractArrayToString ?h = wordsOf"
    by (simp add: specHelpers_def)
  have mode: "boundedWindow (startPage ?sp) (endPage ?sp) = None"
    "\<not> truthy_bool (retriveAllPages ?sp)"
    by (simp_all add: defaultParameters_def boundedWindow_def ifNum_def truthy_bool_def)
  from C10_abstract_conversion [of ?sp ?h ?u "Some 1" "[]" ?d2, OF flag abstract_worksRequest ok]
    mode
  have "settled (works ?h ?sp) = Some (Inr (?d2\<lparr>meta := (meta ?d2)\<lparr>meta_url := Some ?u\<rparr>\<rparr>))"
    and "(results ?d2 ! 0) ''abstract_inverted_index'' = None"
    and "(results ?d2 ! 0) ''abstract'' = Some (JStr ''Hello world '')"
    and "(results ?d2 ! 0) ''id'' = Some (JStr ''W1'')"
    and "(results ?d2 ! 1) ''abstract_inverted_index'' = None"
    and "(results ?d2 ! 1) ''abstract'' = None"
    and "(results ?d2 ! 1) ''id'' = Some (JStr ''W2'')"
    by (simp_all add: rs conv All_less_Suc indexed_def unindexed_def wordsOf_def)
  then show ?thesis
    by (intro exI [of _ "?d2\<lparr>meta := (meta ?d2)\<lparr>meta_url := Some ?u\<rparr>\<rparr>"]) (simp add: rs)
qed


section \<open>The helpers of the specification: the properties\<close>

lemma serves_nonempty: "serves R u ps \<Longrightarrow> ps \<noteq> []"
  by (cases ps) auto

lemma length_cursorsOf: "serves R u ps \<Longrightarrow> length (cursorsOf c ps) = length ps"
proof (induction ps arbitrary: u c)
  case Nil
  then show ?case by simp
next
  case (Cons p ps)
  then show ?case by (auto split: option.splits)
qed

lemma cursorsOf_Suc:
  "serves R u ps \<Longrightarrow> Suc k < length ps \<Longrightarrow>
   next_cursor (meta (ps ! k)) = Some (cursorsOf c ps ! Suc k)"
proof (induction ps arbitrary: u c k)
  case Nil
  then show ?case by simp
next
  case (Cons p ps)
  from Cons.prems obtain c' where c': "next_cursor (meta p) = Some c'"
    and s: "serves R (u\<lparr>url_cursor := c'\<rparr>) ps"
    by (auto split: option.splits)
  show ?case
  proof (cases k)
    case 0
    with c' s show ?thesis by (cases ps) auto
  next
    case (Suc j)
    with Cons.IH [OF s, of j c'] Cons.prems c' show ?thesis by simp
  qed
qed

lemma serves_drop:
  "serves R (u\<lparr>url_cursor := c\<rparr>) ps \<Longrightarrow> i < length ps \<Longrightarrow>
   serves R (u\<lparr>url_cursor := cursorsOf c ps ! i\<rparr>) (drop i ps)"
proof (induction ps arbitrary: c i)
  case Nil
  then show ?case by simp
next
  case (Cons p ps)
  show ?case
  proof (cases i)
    case 0
    with Cons.prems show ?thesis by simp
  next
    case (Suc j)
    with Cons.prems obtain c' where c': "next_cursor (meta p) = Some c'"
      and s: "serves R (u\<lparr>url_cursor := c'\<rparr>) ps"
      by (auto split: option.splits)
    from Cons.IH [OF s, of j] Suc Cons.prems c' show ?thesis by simp
  qed
qed

lemma serves_page:
  assumes "serves R (u\<lparr>url_cursor := c\<rparr>) ps" and "i < length ps"
  shows "status (R (u\<lparr>url_cursor := cursorsOf c ps ! i\<rparr>)) = 200"
    and "data (R (u\<lparr>url_cursor := cursorsOf c ps ! i\<rparr>)) = ps ! i"
proof -
  from assms have "drop i ps = ps ! i # drop (Suc i) ps"
    by (simp add: Cons_nth_drop_Suc)
  with serves_drop [OF assms]
  have "serves R (u\<lparr>url_cursor := cursorsOf c ps ! i\<rparr>) (ps ! i # drop (Suc i) ps)"
    by simp
  then show "status (R (u\<lparr>url_cursor := cursorsOf c ps ! i\<rparr>)) = 200"
    and "data (R (u\<lparr>url_cursor := cursorsOf c ps ! i\<rparr>)) = ps ! i"
    by simp_all
qed

lemma fetchPage_200:
  "status (R u) = 200 \<Longrightarrow>
   fetchPage R u = (Inr (results (data (R u)), next_cursor (meta (data (R u)))), [Get u])"
  by (simp add: fetchPage_def Let_def)

lemma walkPages_None: "walkPages R f u n None = (Inr ([], None), [])"
  by (cases n) auto

lemma walkPages_serves:
  "serves R (u\<lparr>url_cursor := c\<rparr>) ps \<Longrightarrow>
   walkPages R f u n (Some c)
     = (Inr (concat (map (map f \<circ> results) (take n ps)),
             if n < length ps then Some (cursorsOf c ps ! n) else None),
        map (\<lambda>c. Get (u\<lparr>url_cursor := c\<rparr>)) (take n (cursorsOf c ps)))"
proof (induction n arbitrary: c ps)
  case 0
  then show ?case by (cases ps) auto
next
  case (Suc n)
  from Suc.prems obtain p rest where ps: "ps = p # rest"
    by (cases ps) auto
  from Suc.prems ps have ok: "status (R (u\<lparr>url_cursor := c\<rparr>)) = 200"
    and d: "data (R (u\<lparr>url_cursor := c\<rparr>)) = p" by auto
  show ?case
  proof (cases "next_cursor (meta p)")
    case None
    with Suc.prems ps have "rest = []" by auto
    with ps None ok d show ?thesis
      by (simp add: fetchPage_200 walkPages_None)
  next
    case (Some c')
    with Suc.prems ps have s: "serves R (u\<lparr>url_cursor := c'\<rparr>) rest" by auto
    from Suc.IH [OF s] ps Some ok d show ?thesis
      by (simp add: fetchPage_200)
  qed
qed

lemma resolveCursor_serves:
  "serves R \<lparr>url_base = url, url_per_page = pp, url_cursor = c, url_all = False\<rparr> ps \<Longrightarrow>
   n < length ps \<Longrightarrow>
   resolveCursor R url pp n c
     = (Inr (cursorsOf c ps ! n),
        map (\<lambda>c. Get \<lparr>url_base = url, url_per_page = pp, url_cursor = c, url_all = False\<rparr>)
          (take n (cursorsOf c ps)))"
proof (induction n arbitrary: c ps)
  case 0
  then show ?case by (cases ps) auto
next
  case (Suc n)
  from Suc.prems obtain p rest where ps: "ps = p # rest"
    by (cases ps) auto
  let ?u = "\<lambda>c. \<lparr>url_base = url, url_per_page = pp, url_cursor = c, url_all = False\<rparr>"
  from Suc.prems ps have ok: "status (R (?u c)) = 200" and d: "data (R (?u c)) = p" by auto
  from Suc.prems ps obtain c' where c': "next_cursor (meta p) = Some c'"
    and s: "serves R (?u c') rest"
    by (auto split: option.splits)
  from Suc.prems ps have n: "n < length rest" by simp
  from Suc.IH [OF s n] ps c' ok d show ?case
    by (simp add: fetchPage_200)
qed

lemma getCursorByPage_serves:
  assumes s: "serves R \<lparr>url_base = url, url_per_page = pp, url_cursor = ''*'', url_all = False\<rparr> ps"
    and n: "1 \<le> n" "nat n \<le> length ps"
  shows "specGetCursorByPage R url (Some n) pp
     = (Some (Inr (cursorsOf ''*'' ps ! (nat n - 1))),
        map (\<lambda>c. Get \<lparr>url_base = url, url_per_page = pp, url_cursor = c, url_all = False\<rparr>)
          (take (nat n - 1) (cursorsOf ''*'' ps)))"
proof (cases "n = 1")
  case True
  with s show ?thesis
    by (cases ps) (auto simp: specGetCursorByPage_def)
next
  case False
  with n have lt: "nat (n - 1) < length ps" and eq: "nat (n - 1) = nat n - 1" by simp_all
  from False n resolveCursor_serves [OF s lt] show ?thesis
    by (simp add: specGetCursorByPage_def eq)
qed

lemma serves_fivePages:
  "serves (serveTable fivePages)
     \<lparr>url_base = b, url_per_page = pp, url_cursor = ''*'', url_all = a\<rparr> (map snd fivePages)"
  by (simp add: serveTable_def fivePages_def pageOf_def)

lemma cursorsOf_fivePages:
  "cursorsOf ''*'' (map snd fivePages) = [''*'', ''c2'', ''c3'', ''c4'', ''c5'']"
  by (simp add: fivePages_def pageOf_def)

text \<open>
  C4.  The Cursor Resolver, for a target page of at most 1 (or none), returns the start
  sentinel \<open>*\<close> and makes no request.  For a target page \<open>N > 1\<close> of a collection that the
  remote API serves with at least \<open>N\<close> pages, it makes exactly \<open>N - 1\<close> requests, one after
  the other: the first at the sentinel, each following one at the next cursor of the
  page before; and it returns the cursor at which the remote API serves page \<open>N\<close>.
\<close>

theorem C4_cursor_resolver:
  "specGetCursorByPage R url None perPageN = (Some (Inr ''*''), [])
   \<and> (targetPage \<le> 1 \<longrightarrow>
        specGetCursorByPage R url (Some targetPage) perPageN = (Some (Inr ''*''), []))
   \<and> (1 < targetPage
        \<and> serves R \<lparr>url_base = url, url_per_page = perPageN, url_cursor = ''*'',
                     url_all = False\<rparr> ps
        \<and> nat targetPage \<le> length ps \<longrightarrow>
        specGetCursorByPage R url (Some targetPage) perPageN
          = (Some (Inr (cursorsOf ''*'' ps ! (nat targetPage - 1))),
             map (\<lambda>c. Get \<lparr>url_base = url, url_per_page = perPageN, url_cursor = c,
                            url_all = False\<rparr>)
               (take (nat targetPage - 1) (cursorsOf ''*'' ps)))
        \<and> length (take (nat targetPage - 1) (cursorsOf ''*'' ps)) = nat targetPage - 1
        \<and> cursorsOf ''*'' ps ! 0 = ''*''
        \<and> (\<forall>k. Suc k < nat targetPage \<longrightarrow>
               next_cursor (meta (ps ! k)) = Some (cursorsOf ''*'' ps ! Suc k))
        \<and> status (R \<lparr>url_base = url, url_per_page = perPageN,
                       url_cursor = cursorsOf ''*'' ps ! (nat targetPage - 1),
                       url_all = False\<rparr>) = 200
        \<and> data (R \<lparr>url_base = url, url_per_page = perPageN,
                     url_cursor = cursorsOf ''*'' ps ! (nat targetPage - 1),
                     url_all = False\<rparr>) = ps ! (nat targetPage - 1))"
proof -
  have a: "specGetCursorByPage R url None perPageN = (Some (Inr ''*''), [])"
    by (simp add: specGetCursorByPage_def)
  have b: "targetPage \<le> 1 \<longrightarrow>
        specGetCursorByPage R url (Some targetPage) perPageN = (Some (Inr ''*''), [])"
    by (simp add: specGetCursorByPage_def)
  {
    let ?u = "\<lparr>url_base = url, url_per_page = perPageN, url_cursor = ''*'', url_all = False\<rparr>"
    assume n: "1 < targetPage" and s: "serves R ?u ps" and le: "nat targetPage \<le> length ps"
    from s have s': "serves R (?u\<lparr>url_cursor := ''*''\<rparr>) ps" by simp
    from n le have lt: "nat targetPage - 1 < length ps" by simp
    have 1: "specGetCursorByPage R url (Some targetPage) perPageN
          = (Some (Inr (cursorsOf ''*'' ps ! (nat targetPage - 1))),
             map (\<lambda>c. Get \<lparr>url_base = url, url_per_page = perPageN, url_cursor = c,
                            url_all = False\<rparr>)
               (take (nat targetPage - 1) (cursorsOf ''*'' ps)))"
      using getCursorByPage_serves [OF s _ le] n by simp
    have 2: "length (take (nat targetPage - 1) (cursorsOf ''*'' ps)) = nat targetPage - 1"
      using length_cursorsOf [OF s, of "''*''"] lt by simp
    have 3: "cursorsOf ''*'' ps ! 0 = ''*''"
      using serves_nonempty [OF s] by (cases ps) auto
    have 4: "\<forall>k. Suc k < nat targetPage \<longrightarrow>
               next_cursor (meta (ps ! k)) = Some (cursorsOf ''*'' ps ! Suc k)"
      using cursorsOf_Suc [OF s] le by auto
    have 5: "status (R \<lparr>url_base = url, url_per_page = perPageN,
                       url_cursor = cursorsOf ''*'' ps ! (nat targetPage - 1),
                       url_all = False\<rparr>) = 200"
      and 6: "data (R \<lparr>url_base = url, url_per_page = perPageN,
                     url_cursor = cursorsOf ''*'' ps ! (nat targetPage - 1),
                     url_all = False\<rparr>) = ps ! (nat targetPage - 1)"
      using serves_page [OF s' lt] by simp_all
    note 1 2 3 4 5 6
  }
  with a b show ?thesis by blast
qed

theorem C4_cursor_resolver_witness:
  "specGetCursorByPage (serveTable fivePages) ''https://api.openalex.org/works'' (Some 1) (Some 25)
     = (Some (Inr ''*''), [])
   \<and> specGetCursorByPage (serveTable fivePages) ''https://api.openalex.org/works'' (Some 3) (Some 25)
     = (Some (Inr ''c3''),
        [Get \<lparr>url_base = ''https://api.openalex.org/works'', url_per_page = Some 25,
               url_cursor = ''*'', url_all = False\<rparr>,
         Get \<lparr>url_base = ''https://api.openalex.org/works'', url_per_page = Some 25,
               url_cursor = ''c2'', url_all = False\<rparr>])
   \<and> data (serveTable fivePages
              \<lparr>url_base = ''https://api.openalex.org/works'', url_per_page = Some 25,
               url_cursor = ''c3'', url_all = False\<rparr>)
     = pageOf 5 [item ''W3''] (Some ''c4'')"
  using
    C4_cursor_resolver [where R = "serveTable fivePages" and targetPage = 1
      and url = "''https://api.openalex.org/works''" and perPageN = "Some 25"]
    C4_cursor_resolver [where R = "serveTable fivePages" and targetPage = 3
      and url = "''https://api.openalex.org/works''" and perPageN = "Some 25"
      and ps = "map snd fivePages"]
    serves_fivePages [of "''https://api.openalex.org/works''" "Some 25" False]
  by (simp add: cursorsOf_fivePages) (simp add: fivePages_def)


lemma walkPages_rest:
  assumes "serves R u (p # rest)"
  shows "walkPages R f u n (next_cursor (meta p))
     = (Inr (concat (map (map f \<circ> results) (take n rest)),
             if n < length rest then Some (tl (cursorsOf c (p # rest)) ! n) else None),
        map (\<lambda>c. Get (u\<lparr>url_cursor := c\<rparr>)) (take n (tl (cursorsOf c (p # rest)))))"
proof (cases "next_cursor (meta p)")
  case None
  with assms have "rest = []" by simp
  with None show ?thesis by (simp add: walkPages_None)
next
  case (Some c')
  with assms have "serves R (u\<lparr>url_cursor := c'\<rparr>) rest" by simp
  from walkPages_serves [OF this, of f n] Some show ?thesis by simp
qed


lemma boundedWindow_None:
  "\<not> truthy_num a \<or> \<not> truthy_num b \<Longrightarrow> boundedWindow a b = None"
  by (auto simp: boundedWindow_def ifNum_def truthy_num_def split: option.splits if_splits)

text \<open>
  C3.  The facade validates first: whatever \<open>validateParameters\<close> (or its namesake)
  rejects is thrown before any request, and nothing else is done.  With the validator
  of the specification, a request that sets \<open>startPage\<close> or \<open>endPage\<close> together with
  \<open>retriveAllPages\<close>, or \<open>startPage\<close> without \<open>endPage\<close>, is rejected with a validation error:
  no request is made, no file is written and no page is returned.
\<close>

theorem C3_validation_before_network:
  "(validateParameters h (retriveAllPages sp) (startPage sp) (endPage sp) (searchField sp)
        (chunkSize sp) (toCsv sp) (toJson sp) = Some err \<longrightarrow>
      works h sp = \<lparr>settled = Some (Inl err), trace = [], detached = None\<rparr>)
   \<and> (validateAuthorParameters h (retriveAllPages sp) (startPage sp) (endPage sp)
        (searchField sp) = Some err \<longrightarrow>
      listOf collection h sp = \<lparr>settled = Some (Inl err), trace = [], detached = None\<rparr>)
   \<and> ((truthy_bool (retriveAllPages sp) \<and> (truthy_num (startPage sp) \<or> truthy_num (endPage sp)))
        \<or> (truthy_num (startPage sp) \<and> \<not> truthy_num (endPage sp)) \<longrightarrow>
      (\<exists>tag.
         works (specHelpers R build convert fuel chunked) sp
           = \<lparr>settled = Some (Inl (validationError tag)), trace = [], detached = None\<rparr>
         \<and> listOf collection (specHelpers R build convert fuel chunked) sp
           = \<lparr>settled = Some (Inl (validationError tag)), trace = [], detached = None\<rparr>))"
proof -
  have a: "validateParameters h (retriveAllPages sp) (startPage sp) (endPage sp) (searchField sp)
        (chunkSize sp) (toCsv sp) (toJson sp) = Some err \<longrightarrow>
      works h sp = \<lparr>settled = Some (Inl err), trace = [], detached = None\<rparr>"
    by (simp add: works_def worksRequest_def)
  have b: "validateAuthorParameters h (retriveAllPages sp) (startPage sp) (endPage sp)
        (searchField sp) = Some err \<longrightarrow>
      listOf collection h sp = \<lparr>settled = Some (Inl err), trace = [], detached = None\<rparr>"
    by (simp add: listOf_def listRequest_def)
  {
    assume "(truthy_bool (retriveAllPages sp) \<and> (truthy_num (startPage sp) \<or> truthy_num (endPage sp)))
        \<or> (truthy_num (startPage sp) \<and> \<not> truthy_num (endPage sp))"
    then have
      "specValidate (retriveAllPages sp) (startPage sp) (endPage sp)
         = Some (validationError ''window with drain'')
       \<or> specValidate (retriveAllPages sp) (startPage sp) (endPage sp)
         = Some (validationError ''startPage without endPage'')"
      by (auto simp: specValidate_def)
    then obtain tag where
      "specValidate (retriveAllPages sp) (startPage sp) (endPage sp) = Some (validationError tag)"
      by blast
    then have "works (specHelpers R build convert fuel chunked) sp
           = \<lparr>settled = Some (Inl (validationError tag)), trace = [], detached = None\<rparr>
         \<and> listOf collection (specHelpers R build convert fuel chunked) sp
           = \<lparr>settled = Some (Inl (validationError tag)), trace = [], detached = None\<rparr>"
      by (simp add: works_def worksRequest_def listOf_def listRequest_def specHelpers_def)
    then have "\<exists>tag.
         works (specHelpers R build convert fuel chunked) sp
           = \<lparr>settled = Some (Inl (validationError tag)), trace = [], detached = None\<rparr>
         \<and> listOf collection (specHelpers R build convert fuel chunked) sp
           = \<lparr>settled = Some (Inl (validationError tag)), trace = [], detached = None\<rparr>" ..
  }
  with a b show ?thesis by blast
qed

theorem C3_validation_before_network_witness:
  "works (specHelpers failing plainUrl wordsOf 0 idle)
      (defaultParameters\<lparr>retriveAllPages := Some True, startPage := Some 2, endPage := Some 4\<rparr>)
     = \<lparr>settled = Some (Inl (Error ''ValidationError: window with drain'')), trace = [],
        detached = None\<rparr>
   \<and> topics (specHelpers failing plainUrl wordsOf 0 idle) (defaultParameters\<lparr>startPage := Some 2\<rparr>)
     = \<lparr>settled = Some (Inl (Error ''ValidationError: startPage without endPage'')),
        trace = [], detached = None\<rparr>"
  using
    C3_validation_before_network [where h = "specHelpers failing plainUrl wordsOf 0 idle"
      and sp = "defaultParameters\<lparr>retriveAllPages := Some True, startPage := Some 2,
                                   endPage := Some 4\<rparr>"
      and err = "Error ''ValidationError: window with drain''"]
    C3_validation_before_network [where h = "specHelpers failing plainUrl wordsOf 0 idle"
      and sp = "defaultParameters\<lparr>startPage := Some 2\<rparr>"
      and collection = "''topics''"
      and err = "Error ''ValidationError: startPage without endPage''"]
  by (simp add: specHelpers_def specValidate_def validationError_def defaultParameters_def
      truthy_bool_def truthy_num_def topics_def)











lemma handleAllPages_serves:
  assumes s: "serves R u (p # rest)"
    and nc: "next_cursor (meta (data response)) = next_cursor (meta p)"
    and fuel: "length rest \<le> fuel"
  shows "specHandleAllPages R f fuel u response js csv
     = (Some (Inr \<lparr>meta = meta (data response),
                   results = results (data response)
                     @ concat (map (map f \<circ> results) rest)\<rparr>),
        map (\<lambda>c. Get (u\<lparr>url_cursor := c\<rparr>)) (tl (cursorsOf c (p # rest)))
        @ exportResults js csv None
            (results (data response) @ concat (map (map f \<circ> results) rest)))"
proof -
  from length_cursorsOf [OF s, of c] have "length (tl (cursorsOf c (p # rest))) = length rest"
    by simp
  with fuel have "take fuel (tl (cursorsOf c (p # rest))) = tl (cursorsOf c (p # rest))"
    by simp
  with walkPages_rest [OF s, of f fuel c] nc fuel show ?thesis
    by (simp add: specHandleAllPages_def Let_def)
qed

lemma string_of_int_403: "string_of_int 403 = ''403''"
  by (simp add: string_of_int_def string_of_nat.simps digit_def)

lemma drain_request:
  assumes "truthy_bool (retriveAllPages sp)"
    and "\<not> truthy_num (startPage sp)" "\<not> truthy_num (endPage sp)"
    and "validateParameters h (retriveAllPages sp) (startPage sp) (endPage sp) (searchField sp)
           (chunkSize sp) (toCsv sp) (toJson sp) = None"
    and "url = buildUrl h api_url ''works'' (search sp) (searchField sp) (filter_by sp)
                 (groupBy sp) (sortBy sp)"
  shows "getCursorByPage h url (page sp) (perPage sp) = (Some (Inl err), before) \<Longrightarrow>
         works h sp = \<lparr>settled = Some (Inl err), trace = before, detached = None\<rparr>"
    and "getCursorByPage h url (page sp) (perPage sp) = (Some (Inr cursor), before) \<Longrightarrow>
         worksRequest h sp
           = (Some (Inr (appendCursorToUrl h url (Some 200) ''*'' (retriveAllPages sp), page sp)),
              before)"
  using assms by (simp_all add: works_def worksRequest_def Let_def boundedWindow_None)

lemma drain_response:
  assumes "truthy_bool (retriveAllPages sp)"
    and "\<not> truthy_num (startPage sp)" "\<not> truthy_num (endPage sp)"
    and "ifNum (chunkSize sp) = None"
    and "worksRequest h sp = (Some (Inr (u, pg)), before)"
    and "status (GET h u) = 200"
    and "first = processPage sp (convertAbstractArrayToString h) pg (data (GET h u))"
  shows "settled (works h sp)
           = fst (handleAllPages h u ((GET h u)\<lparr>data := first\<rparr>) (toJson sp) (toCsv sp)
                    (AbstractArrayToString sp))"
    and "trace (works h sp)
           = before @ Get u # snd (handleAllPages h u ((GET h u)\<lparr>data := first\<rparr>) (toJson sp)
                                     (toCsv sp) (AbstractArrayToString sp))"
  using assms
  by (simp_all add: works_def worksResponse_def Let_def boundedWindow_None split: prod.splits)

lemma drain_serves:
  assumes drain: "truthy_bool (retriveAllPages sp)"
    and mono: "ifNum (chunkSize sp) = None"
    and nowin: "\<not> truthy_num (startPage sp)" "\<not> truthy_num (endPage sp)"
    and url: "url = build api_url ''works'' (search sp) (searchField sp) (filter_by sp)
                      (groupBy sp) (sortBy sp)"
    and srv: "serves R \<lparr>url_base = url, url_per_page = Some 200, url_cursor = ''*'',
                         url_all = True\<rparr> ps"
    and fuel: "length ps \<le> Suc fuel"
    and pre: "specGetCursorByPage R url (page sp) (perPage sp) = (Some (Inr cursor), before)"
    and f: "f = (if truthy_bool (AbstractArrayToString sp) then abstractArrayToString convert
                 else id)"
  shows "settled (works (specHelpers R build convert fuel chunked) sp)
     = Some (Inr \<lparr>meta = (meta (hd ps))
                          \<lparr>meta_page := (case page sp of None \<Rightarrow> 1 | Some n \<Rightarrow> n)\<rparr>,
                  results = concat (map (map f \<circ> results) ps)\<rparr>)
   \<and> trace (works (specHelpers R build convert fuel chunked) sp)
     = before
       @ map (\<lambda>c. Get \<lparr>url_base = url, url_per_page = Some 200, url_cursor = c,
                        url_all = True\<rparr>) (cursorsOf ''*'' ps)
       @ exportResults (toJson sp) (toCsv sp) None (concat (map (map f \<circ> results) ps))"
proof -
  let ?H = "specHelpers R build convert fuel chunked"
  let ?u = "\<lparr>url_base = url, url_per_page = Some 200, url_cursor = ''*'', url_all = True\<rparr>"
  from srv obtain p rest where ps: "ps = p # rest" by (cases ps) auto
  from srv ps have ok: "status (R ?u) = 200" and page: "data (R ?u) = p" by simp_all
  have valid: "specValidate (retriveAllPages sp) (startPage sp) (endPage sp) = None"
    using nowin by (simp add: specValidate_def)
  have w: "boundedWindow (startPage sp) (endPage sp) = None"
    using nowin by (simp add: boundedWindow_None)
  have request: "worksRequest ?H sp = (Some (Inr (?u, page sp)), before)"
    using valid pre w drain
    by (simp add: worksRequest_def specHelpers_simps url [symmetric] specAppendCursorToUrl_def
        Let_def)
  define d2 where "d2 =
     (if truthy_bool (AbstractArrayToString sp)
      then p\<lparr>meta := (meta p)\<lparr>meta_page := (case page sp of None \<Rightarrow> 1 | Some n \<Rightarrow> n)\<rparr>,
             results := map (abstractArrayToString convert) (results p)\<rparr>
      else p\<lparr>meta := (meta p)\<lparr>meta_page := (case page sp of None \<Rightarrow> 1 | Some n \<Rightarrow> n)\<rparr>\<rparr>)"
  have d2: "meta d2 = (meta p)\<lparr>meta_page := (case page sp of None \<Rightarrow> 1 | Some n \<Rightarrow> n)\<rparr>"
    "results d2 = map f (results p)"
    by (simp_all add: d2_def f)
  have fdef: "(if truthy_bool (AbstractArrayToString sp) then abstractArrayToString convert
               else id) = f"
    by (simp add: f)
  from srv ps have srv': "serves R ?u (p # rest)" by simp
  from fuel ps have fuel': "length rest \<le> fuel" by simp
  have handler: "specHandleAllPages R f fuel ?u ((R ?u)\<lparr>data := d2\<rparr>) (toJson sp) (toCsv sp)
     = (Some (Inr \<lparr>meta = meta d2,
                   results = map f (results p) @ concat (map (map f \<circ> results) rest)\<rparr>),
        map (\<lambda>c. Get (?u\<lparr>url_cursor := c\<rparr>)) (tl (cursorsOf ''*'' (p # rest)))
        @ exportResults (toJson sp) (toCsv sp) None
            (map f (results p) @ concat (map (map f \<circ> results) rest)))"
    using handleAllPages_serves [where response = "(R ?u)\<lparr>data := d2\<rparr>" and f = f
        and c = "''*''" and js = "toJson sp" and csv = "toCsv sp", OF srv' _ fuel']
    by (simp add: d2)
  have response: "worksResponse ?H sp ?u (page sp)
     = \<lparr>settled = Some (Inr \<lparr>meta = meta d2,
                   results = map f (results p) @ concat (map (map f \<circ> results) rest)\<rparr>),
        trace = Get ?u # map (\<lambda>c. Get (?u\<lparr>url_cursor := c\<rparr>)) (tl (cursorsOf ''*'' (p # rest)))
          @ exportResults (toJson sp) (toCsv sp) None
              (map f (results p) @ concat (map (map f \<circ> results) rest)),
        detached = None\<rparr>"
  proof -
    have "worksResponse ?H sp ?u (page sp)
       = (case specHandleAllPages R f fuel ?u ((R ?u)\<lparr>data := d2\<rparr>) (toJson sp) (toCsv sp) of
            (r, t) \<Rightarrow> \<lparr>settled = r, trace = Get ?u # t, detached = None\<rparr>)"
      using ok page w drain mono
      by (simp add: worksResponse_def processPage_def specHelpers_simps specHelpers_GET Let_def d2_def fdef)
    then show ?thesis
      by (simp add: handler)
  qed
  from request response show ?thesis
    by (simp add: works_def Let_def ps d2)
qed

text \<open>
  C6, as stated, fails: the caller's \<open>page\<close> and \<open>perPage\<close> do matter.  Against a remote
  API that serves the collection at page size 200 and answers any other page size with
  403, the drain with \<open>perPage\<close> 500 and \<open>page\<close> 2 is rejected with \<open>Error 403: Forbidden\<close>
  after one request, at page size 500, and no traversal starts; the drain with the
  default \<open>perPage\<close> and \<open>page\<close> returns all five pages.  The facade resolves the cursor of
  \<open>page\<close> at the caller's \<open>perPage\<close> before it overrides them.
\<close>

theorem C6_preflight_rejects:
  "works (specHelpers picky plainUrl wordsOf 4 idle)
      (defaultParameters\<lparr>retriveAllPages := Some True, perPage := Some 500, page := Some 2\<rparr>)
     = \<lparr>settled = Some (Inl (Error ''Error 403: Forbidden'')),
        trace = [Get \<lparr>url_base = ''https://api.openalex.org/works'', url_per_page = Some 500,
                      url_cursor = ''*'', url_all = False\<rparr>],
        detached = None\<rparr>
   \<and> settled (works (specHelpers picky plainUrl wordsOf 4 idle)
                (defaultParameters\<lparr>retriveAllPages := Some True\<rparr>))
     = Some (Inr \<lparr>meta = \<lparr>meta_count = 5, meta_page = 1, meta_per_page = 25,
                           next_cursor = Some ''c2'', meta_url = None\<rparr>,
                  results = [item ''W1'', item ''W2'', item ''W3'', item ''W4'', item ''W5'']\<rparr>)"
proof -
  let ?H = "specHelpers picky plainUrl wordsOf 4 idle"
  let ?sp = "defaultParameters\<lparr>retriveAllPages := Some True\<rparr>"
  have a: "works ?H
      (defaultParameters\<lparr>retriveAllPages := Some True, perPage := Some 500, page := Some 2\<rparr>)
     = \<lparr>settled = Some (Inl (Error ''Error 403: Forbidden'')),
        trace = [Get \<lparr>url_base = ''https://api.openalex.org/works'', url_per_page = Some 500,
                      url_cursor = ''*'', url_all = False\<rparr>],
        detached = None\<rparr>"
    by (simp add: works_def worksRequest_def specHelpers_simps defaultParameters_def
        specValidate_def truthy_bool_def truthy_num_def specGetCursorByPage_def fetchPage_def
        picky_def httpError_def string_of_int_403 plainUrl_def api_url_def Let_def)
  have drain: "truthy_bool (retriveAllPages ?sp)"
    by (simp add: truthy_bool_def)
  have mono: "ifNum (chunkSize ?sp) = None"
    by (simp add: defaultParameters_def ifNum_def)
  have nowin: "\<not> truthy_num (startPage ?sp)" "\<not> truthy_num (endPage ?sp)"
    by (simp_all add: defaultParameters_def truthy_num_def)
  have url: "''https://api.openalex.org/works''
     = plainUrl api_url ''works'' (search ?sp) (searchField ?sp) (filter_by ?sp) (groupBy ?sp)
         (sortBy ?sp)"
    by (simp add: plainUrl_def api_url_def)
  have srv: "serves picky
     \<lparr>url_base = ''https://api.openalex.org/works'', url_per_page = Some 200,
      url_cursor = ''*'', url_all = True\<rparr> (map snd fivePages)"
    by (simp add: picky_def serveTable_def fivePages_def pageOf_def)
  have fuel: "length (map snd fivePages) \<le> Suc 4"
    by (simp add: fivePages_def)
  have pre: "specGetCursorByPage picky ''https://api.openalex.org/works''
      (page ?sp) (perPage ?sp) = (Some (Inr ''*''), [])"
    by (simp add: specGetCursorByPage_def defaultParameters_def)
  from drain_serves [where build = plainUrl and convert = wordsOf and f = id and chunked = idle,
      OF drain mono nowin url srv fuel pre]
  have b: "settled (works ?H ?sp)
     = Some (Inr \<lparr>meta = \<lparr>meta_count = 5, meta_page = 1, meta_per_page = 25,
                           next_cursor = Some ''c2'', meta_url = None\<rparr>,
                  results = [item ''W1'', item ''W2'', item ''W3'', item ''W4'', item ''W5'']\<rparr>)"
    by (simp add: defaultParameters_def truthy_bool_def fivePages_def pageOf_def)
  from a b show ?thesis by simp
qed

text \<open>
  C6, amended.  A drain-to-completion request (\<open>retriveAllPages\<close> set, no window, which
  validation excludes) that passes validation: the facade first awaits the cursor
  resolution for the caller's \<open>page\<close> at the caller's \<open>perPage\<close>; when that fails the call
  is rejected with its error and no traversal starts.  When it settles, the traversal
  starts at the sentinel cursor \<open>*\<close> with page size 200, whatever \<open>perPage\<close> and \<open>page\<close> are
  and whatever cursor was resolved.  For a request without \<open>chunkSize\<close> whose first page
  is answered with status 200, the facade returns what \<open>handleAllPages\<close> settles to on
  that page; with the handler of the specification, over a collection that the remote
  API serves from the sentinel in finitely many pages, every request of the traversal
  carries page size 200, each following one the next cursor of the page before, until a
  page has no next cursor, and the call settles (given fuel for that many pages) with
  the concatenation of all the pages' results under the \<open>meta\<close> of the first page.
\<close>

theorem C6_drain_to_completion:
  assumes drain: "truthy_bool (retriveAllPages sp)"
    and nowin: "\<not> truthy_num (startPage sp)" "\<not> truthy_num (endPage sp)"
  shows
   "(validateParameters h (retriveAllPages sp) (startPage sp) (endPage sp) (searchField sp)
       (chunkSize sp) (toCsv sp) (toJson sp) = None
     \<and> getCursorByPage h
          (buildUrl h api_url ''works'' (search sp) (searchField sp) (filter_by sp) (groupBy sp)
             (sortBy sp)) (page sp) (perPage sp) = (Some (Inl err), before) \<longrightarrow>
     works h sp = \<lparr>settled = Some (Inl err), trace = before, detached = None\<rparr>)
    \<and> (validateParameters h (retriveAllPages sp) (startPage sp) (endPage sp) (searchField sp)
          (chunkSize sp) (toCsv sp) (toJson sp) = None
        \<and> getCursorByPage h
             (buildUrl h api_url ''works'' (search sp) (searchField sp) (filter_by sp)
                (groupBy sp) (sortBy sp)) (page sp) (perPage sp) = (Some (Inr cursor), before) \<longrightarrow>
        worksRequest h sp
          = (Some (Inr (appendCursorToUrl h
                          (buildUrl h api_url ''works'' (search sp) (searchField sp)
                             (filter_by sp) (groupBy sp) (sortBy sp))
                          (Some 200) ''*'' (retriveAllPages sp),
                        page sp)), before))
    \<and> (ifNum (chunkSize sp) = None
        \<and> worksRequest h sp = (Some (Inr (u, pg)), before)
        \<and> status (GET h u) = 200
        \<and> first = processPage sp (convertAbstractArrayToString h) pg (data (GET h u)) \<longrightarrow>
        settled (works h sp)
          = fst (handleAllPages h u ((GET h u)\<lparr>data := first\<rparr>) (toJson sp) (toCsv sp)
                   (AbstractArrayToString sp))
        \<and> trace (works h sp)
          = before @ Get u # snd (handleAllPages h u ((GET h u)\<lparr>data := first\<rparr>) (toJson sp)
                                    (toCsv sp) (AbstractArrayToString sp)))
    \<and> (ifNum (chunkSize sp) = None
        \<and> serves R \<lparr>url_base = build api_url ''works'' (search sp) (searchField sp)
                                  (filter_by sp) (groupBy sp) (sortBy sp),
                     url_per_page = Some 200, url_cursor = ''*'', url_all = True\<rparr> ps
        \<and> length ps \<le> Suc fuel
        \<and> specGetCursorByPage R
             (build api_url ''works'' (search sp) (searchField sp) (filter_by sp) (groupBy sp)
                (sortBy sp)) (page sp) (perPage sp) = (Some (Inr resolved), preflight)
        \<and> f = (if truthy_bool (AbstractArrayToString sp) then abstractArrayToString convert
                else id) \<longrightarrow>
        settled (works (specHelpers R build convert fuel chunked) sp)
          = Some (Inr \<lparr>meta = (meta (hd ps))
                               \<lparr>meta_page := (case page sp of None \<Rightarrow> 1 | Some n \<Rightarrow> n)\<rparr>,
                       results = concat (map (map f \<circ> results) ps)\<rparr>)
        \<and> trace (works (specHelpers R build convert fuel chunked) sp)
          = preflight
            @ map (\<lambda>c. Get \<lparr>url_base = build api_url ''works'' (search sp) (searchField sp)
                                           (filter_by sp) (groupBy sp) (sortBy sp),
                             url_per_page = Some 200, url_cursor = c, url_all = True\<rparr>)
                (cursorsOf ''*'' ps)
            @ exportResults (toJson sp) (toCsv sp) None (concat (map (map f \<circ> results) ps)))"
proof -
  note a = drain_request [OF drain nowin _ refl]
  note b = drain_response [OF drain nowin]
  note c = drain_serves [where build = build and convert = convert, OF drain _ nowin refl]
  show ?thesis
    apply (intro conjI impI)
         apply (elim conjE, rule a(1); assumption)
        apply (elim conjE, rule a(2); assumption)
       apply (elim conjE, rule b(1); assumption)
      apply (elim conjE, rule b(2); assumption)
     apply (elim conjE, rule c [THEN conjunct1]; assumption)
    apply (elim conjE, rule c [THEN conjunct2]; assumption)
    done
qed

theorem C6_drain_to_completion_witness:
  "worksRequest (specHelpers (serveTable fivePages) plainUrl wordsOf 4 idle)
      (defaultParameters\<lparr>retriveAllPages := Some True, perPage := Some 7, page := Some 2\<rparr>)
     = (Some (Inr (\<lparr>url_base = ''https://api.openalex.org/works'', url_per_page = Some 200,
                     url_cursor = ''*'', url_all = True\<rparr>, Some 2)),
        [Get \<lparr>url_base = ''https://api.openalex.org/works'', url_per_page = Some 7,
               url_cursor = ''*'', url_all = False\<rparr>])
   \<and> settled (works (specHelpers (serveTable fivePages) plainUrl wordsOf 4 idle)
             (defaultParameters\<lparr>retriveAllPages := Some True, perPage := Some 7,
                                  page := Some 2\<rparr>))
     = Some (Inr \<lparr>meta = \<lparr>meta_count = 5, meta_page = 2, meta_per_page = 25,
                           next_cursor = Some ''c2'', meta_url = None\<rparr>,
                  results = [item ''W1'', item ''W2'', item ''W3'', item ''W4'', item ''W5'']\<rparr>)
   \<and> trace (works (specHelpers (serveTable fivePages) plainUrl wordsOf 4 idle)
             (defaultParameters\<lparr>retriveAllPages := Some True, perPage := Some 7,
                                  page := Some 2\<rparr>))
     = Get \<lparr>url_base = ''https://api.openalex.org/works'', url_per_page = Some 7,
             url_cursor = ''*'', url_all = False\<rparr>
       # map (\<lambda>c. Get \<lparr>url_base = ''https://api.openalex.org/works'', url_per_page = Some 200,
                        url_cursor = c, url_all = True\<rparr>)
           [''*'', ''c2'', ''c3'', ''c4'', ''c5'']"
proof -
  let ?H = "specHelpers (serveTable fivePages) plainUrl wordsOf 4 idle"
  let ?sp = "defaultParameters\<lparr>retriveAllPages := Some True, perPage := Some 7,
                                page := Some 2\<rparr>"
  let ?pre = "[Get \<lparr>url_base = ''https://api.openalex.org/works'', url_per_page = Some 7,
                    url_cursor = ''*'', url_all = False\<rparr>]"
  have drain: "truthy_bool (retriveAllPages ?sp)"
    by (simp add: truthy_bool_def)
  have nowin: "\<not> truthy_num (startPage ?sp)" "\<not> truthy_num (endPage ?sp)"
    by (simp_all add: defaultParameters_def truthy_num_def)
  have url: "plainUrl api_url ''works'' (search ?sp) (searchField ?sp) (filter_by ?sp)
      (groupBy ?sp) (sortBy ?sp) = ''https://api.openalex.org/works''"
    by (simp add: plainUrl_def api_url_def)
  have pre: "specGetCursorByPage (serveTable fivePages) ''https://api.openalex.org/works''
      (page ?sp) (perPage ?sp) = (Some (Inr ''c2''), ?pre)"
    by (simp add: specGetCursorByPage_def fetchPage_def serveTable_def fivePages_def pageOf_def)
  have hyps: "ifNum (chunkSize ?sp) = None
      \<and> serves (serveTable fivePages)
           \<lparr>url_base = ''https://api.openalex.org/works'', url_per_page = Some 200,
            url_cursor = ''*'', url_all = True\<rparr> (map snd fivePages)
      \<and> length (map snd fivePages) \<le> Suc 4
      \<and> specGetCursorByPage (serveTable fivePages) ''https://api.openalex.org/works''
            (page ?sp) (perPage ?sp) = (Some (Inr ''c2''), ?pre)
      \<and> id = (if truthy_bool (AbstractArrayToString ?sp) then abstractArrayToString wordsOf
                else id)"
    using serves_fivePages [of "''https://api.openalex.org/works''" "Some 200" True] pre
    by (simp add: defaultParameters_def ifNum_def truthy_bool_def fivePages_def)
  note inst = C6_drain_to_completion [where R = "serveTable fivePages" and build = plainUrl
      and convert = wordsOf and fuel = 4 and ps = "map snd fivePages" and f = id
      and chunked = idle and resolved = "''c2''" and preflight = ?pre
      and h = ?H and cursor = "''c2''" and before = ?pre, OF drain nowin]
  from inst [THEN conjunct2, THEN conjunct1] pre
  have request: "worksRequest ?H ?sp
     = (Some (Inr (\<lparr>url_base = ''https://api.openalex.org/works'', url_per_page = Some 200,
                     url_cursor = ''*'', url_all = True\<rparr>, Some 2)), ?pre)"
    by (simp add: specHelpers_simps specValidate_def specAppendCursorToUrl_def truthy_bool_def
        truthy_num_def defaultParameters_def plainUrl_def api_url_def)
  note inst [THEN conjunct2, THEN conjunct2, THEN conjunct2, unfolded url, THEN mp, OF hyps]
  then have result: "settled (works ?H ?sp)
     = Some (Inr \<lparr>meta = \<lparr>meta_count = 5, meta_page = 2, meta_per_page = 25,
                           next_cursor = Some ''c2'', meta_url = None\<rparr>,
                  results = [item ''W1'', item ''W2'', item ''W3'', item ''W4'', item ''W5'']\<rparr>)
   \<and> trace (works ?H ?sp)
     = Get \<lparr>url_base = ''https://api.openalex.org/works'', url_per_page = Some 7,
             url_cursor = ''*'', url_all = False\<rparr>
       # map (\<lambda>c. Get \<lparr>url_base = ''https://api.openalex.org/works'', url_per_page = Some 200,
                        url_cursor = c, url_all = True\<rparr>)
           [''*'', ''c2'', ''c3'', ''c4'', ''c5'']"
    by (simp add: defaultParameters_def truthy_bool_def cursorsOf_fivePages exportResults_def
        ifStr_def)
       (simp add: fivePages_def pageOf_def)
  from request result show ?thesis by simp
qed

section \<open>Failed fetches inside the helpers of the specification\<close>

text \<open>
  With the Page Fetcher of the specification, a request of the cursor resolution or of
  the traversal that is answered with a status that is neither 200 nor 404 is the last
  thing the helper does, and the helper fails with \<open>Error <status>: <statusText>\<close>.
\<close>

lemma resolveCursor_surfaces:
  "resolveCursor R url pp n c = (r, t) \<Longrightarrow> Get v \<in> set t \<Longrightarrow>
   status (R v) \<noteq> 200 \<Longrightarrow> status (R v) \<noteq> 404 \<Longrightarrow> r = Inl (httpError (R v))"
proof (induction n arbitrary: c r t)
  case 0
  then show ?case by simp
next
  case (Suc n)
  then show ?case
    by (auto simp: fetchPage_def Let_def split: option.splits prod.splits if_splits)
qed

lemma getCursorByPage_surfaces:
  "specGetCursorByPage R url pg pp = (r, t) \<Longrightarrow> Get v \<in> set t \<Longrightarrow>
   status (R v) \<noteq> 200 \<Longrightarrow> status (R v) \<noteq> 404 \<Longrightarrow> r = Some (Inl (httpError (R v)))"
  using resolveCursor_surfaces [of R url pp _ "''*''" _ t v]
  by (auto simp: specGetCursorByPage_def Let_def split: prod.splits if_splits)

lemma walkPages_surfaces:
  "walkPages R f u n next = (r, t) \<Longrightarrow> Get v \<in> set t \<Longrightarrow>
   status (R v) \<noteq> 200 \<Longrightarrow> status (R v) \<noteq> 404 \<Longrightarrow> r = Inl (httpError (R v))"
proof (induction n arbitrary: "next" r t)
  case 0
  then show ?case by simp
next
  case (Suc n)
  show ?case
  proof (cases "next")
    case None
    with Suc.prems show ?thesis by simp
  next
    case (Some c)
    let ?w = "u\<lparr>url_cursor := c\<rparr>"
    obtain x tf where fp: "fetchPage R ?w = (x, tf)" by fastforce
    then have tf: "tf = [Get ?w]" by (simp add: fetchPage_def Let_def)
    show ?thesis
    proof (cases x)
      case (Inl e)
      with fp Suc.prems Some tf have "r = Inl e" and "v = ?w" by auto
      moreover from fp Inl have "e = httpError (R ?w)"
        by (auto simp: fetchPage_def Let_def split: if_splits)
      ultimately show ?thesis by simp
    next
      case (Inr y)
      obtain rs nx where y: "y = (rs, nx)" by (cases y)
      obtain r' t' where wp: "walkPages R f u n nx = (r', t')" by fastforce
      from fp Inr have "status (R ?w) = 200 \<or> status (R ?w) = 404"
        by (auto simp: fetchPage_def Let_def split: if_splits)
      with Suc.prems have ne: "v \<noteq> ?w" by auto
      from Suc.prems(1) Some fp Inr y wp tf have t: "t = Get ?w # t'"
        and r: "r = (case r' of Inl e \<Rightarrow> Inl e
                      | Inr (rest, left) \<Rightarrow> Inr (map f rs @ rest, left))"
        by (auto split: sum.splits)
      from t Suc.prems(2) ne have "Get v \<in> set t'" by simp
      from Suc.IH [OF wp this Suc.prems(3,4)] r show ?thesis by simp
    qed
  qed
qed

lemma exportResults_no_request: "Get v \<notin> set (exportResults js csv chunk rs)"
  by (simp add: exportResults_def split: option.splits)

lemma handleMultiplePages_surfaces:
  "specHandleMultiplePages R f s e u response js csv = (r, t) \<Longrightarrow> Get v \<in> set t \<Longrightarrow>
   status (R v) \<noteq> 200 \<Longrightarrow> status (R v) \<noteq> 404 \<Longrightarrow> r = Some (Inl (httpError (R v)))"
  using walkPages_surfaces [of R f u "nat (e - s)" "next_cursor (meta (data response))" _ _ v]
  by (auto simp: specHandleMultiplePages_def Let_def exportResults_no_request
      split: prod.splits sum.splits)

lemma handleAllPages_surfaces:
  "specHandleAllPages R f fuel u response js csv = (r, t) \<Longrightarrow> Get v \<in> set t \<Longrightarrow>
   status (R v) \<noteq> 200 \<Longrightarrow> status (R v) \<noteq> 404 \<Longrightarrow> r = Some (Inl (httpError (R v)))"
  using walkPages_surfaces [of R f u fuel "next_cursor (meta (data response))" _ _ v]
  by (auto simp: specHandleAllPages_def Let_def exportResults_no_request
      split: prod.splits sum.splits option.splits)

lemma worksRequest_surfaces:
  assumes "worksRequest (specHelpers R build convert fuel chunked) sp = (r, t)"
    and "Get v \<in> set t" and "status (R v) \<noteq> 200" and "status (R v) \<noteq> 404"
  shows "r = Some (Inl (httpError (R v)))"
  using assms
  by (auto simp: worksRequest_def specHelpers_simps Let_def
      split: option.splits prod.splits sum.splits if_splits
      dest: getCursorByPage_surfaces)

lemma worksResponse_surfaces:
  assumes "Get v \<in> set (trace (worksResponse (specHelpers R build convert fuel chunked) sp u p))"
    and "status (R v) \<noteq> 200" and "status (R v) \<noteq> 404"
  shows "settled (worksResponse (specHelpers R build convert fuel chunked) sp u p)
     = Some (Inl (httpError (R v)))"
  using assms
  by (auto simp: worksResponse_def specHelpers_simps specHelpers_GET Let_def
      split: option.splits prod.splits if_splits
      dest: handleMultiplePages_surfaces handleAllPages_surfaces)

text \<open>
  So a request that \<open>works\<close> awaits, its own or one of the cursor resolution, the bounded
  window or the monolithic drain, answered with a status that is neither 200 nor 404,
  makes \<open>works\<close> fail with \<open>Error <status>: <statusText>\<close>.
\<close>

lemma fetch_surfaces:
  assumes "Get v \<in> set (trace (works (specHelpers R build convert fuel chunked) sp))"
    and "status (R v) \<noteq> 200" and "status (R v) \<noteq> 404"
  shows "settled (works (specHelpers R build convert fuel chunked) sp)
     = Some (Inl (httpError (R v)))"
proof -
  let ?H = "specHelpers R build convert fuel chunked"
  obtain r t where rq: "worksRequest ?H sp = (r, t)" by fastforce
  note early = worksRequest_surfaces [OF rq _ assms(2,3)]
  show ?thesis
  proof (cases r)
    case None
    with rq assms(1) early show ?thesis by (simp add: works_def)
  next
    case (Some x)
    show ?thesis
    proof (cases x)
      case (Inl e)
      with Some rq assms(1) early show ?thesis by (simp add: works_def)
    next
      case (Inr y)
      obtain u p where y: "y = (u, p)" by (cases y)
      from Some Inr early have "Get v \<notin> set t" by auto
      with Some Inr y rq assms(1)
      have "Get v \<in> set (trace (worksResponse ?H sp u p))"
        by (simp add: works_def Let_def)
      from worksResponse_surfaces [OF this assms(2,3)] Some Inr y rq show ?thesis
        by (simp add: works_def Let_def)
    qed
  qed
qed

lemma listRequest_surfaces:
  assumes "listRequest collection (specHelpers R build convert fuel chunked) sp = (r, t)"
    and "Get v \<in> set t" and "status (R v) \<noteq> 200" and "status (R v) \<noteq> 404"
  shows "r = Some (Inl (httpError (R v)))"
  using assms
  by (auto simp: listRequest_def specHelpers_simps specHelpers_def Let_def
      split: option.splits prod.splits sum.splits if_splits
      dest: getCursorByPage_surfaces)

lemma listResponse_surfaces:
  assumes "Get v \<in> set (trace (listResponse (specHelpers R build convert fuel chunked) sp u p))"
    and "status (R v) \<noteq> 200" and "status (R v) \<noteq> 404"
  shows "settled (listResponse (specHelpers R build convert fuel chunked) sp u p)
     = Some (Inl (httpError (R v)))"
  using assms
  by (auto simp: listResponse_def specHelpers_def Let_def
      split: option.splits prod.splits if_splits
      dest: handleMultiplePages_surfaces handleAllPages_surfaces)

lemma fetch_surfaces_list:
  assumes "Get v \<in> set (trace (listOf collection (specHelpers R build convert fuel chunked) sp))"
    and "status (R v) \<noteq> 200" and "status (R v) \<noteq> 404"
  shows "settled (listOf collection (specHelpers R build convert fuel chunked) sp)
     = Some (Inl (httpError (R v)))"
proof -
  let ?H = "specHelpers R build convert fuel chunked"
  obtain r t where rq: "listRequest collection ?H sp = (r, t)" by fastforce
  note early = listRequest_surfaces [OF rq _ assms(2,3)]
  show ?thesis
  proof (cases r)
    case None
    with rq assms(1) early show ?thesis by (simp add: listOf_def)
  next
    case (Some x)
    show ?thesis
    proof (cases x)
      case (Inl e)
      with Some rq assms(1) early show ?thesis by (simp add: listOf_def)
    next
      case (Inr y)
      obtain u p where y: "y = (u, p)" by (cases y)
      from Some Inr early have "Get v \<notin> set t" by auto
      with Some Inr y rq assms(1)
      have "Get v \<in> set (trace (listResponse ?H sp u p))"
        by (simp add: listOf_def Let_def)
      from listResponse_surfaces [OF this assms(2,3)] Some Inr y rq show ?thesis
        by (simp add: listOf_def Let_def)
    qed
  qed
qed

section \<open>The chunked drain\<close>

text \<open>
  The chunked drain, for any helpers: \<open>works\<close> calls \<open>handleAllPagesInChunks\<close> on the first
  page without \<open>await\<close> or \<open>return\<close>, writes that page to the \<open>toJson\<close> and \<open>toCsv\<close> files
  when these are set, and returns it.  Nothing the handler does reaches the caller.
\<close>

lemma chunked_facade:
  assumes "truthy_bool (retriveAllPages sp)"
    and "ifNum (chunkSize sp) = Some k"
    and "boundedWindow (startPage sp) (endPage sp) = None"
    and "worksRequest h sp = (Some (Inr (u, pg)), before)"
    and "status (GET h u) = 200"
  shows "settled (works h sp)
        = Some (Inr ((processPage sp (convertAbstractArrayToString h) pg (data (GET h u)))
                       \<lparr>meta :=
                          (meta (processPage sp (convertAbstractArrayToString h) pg
                                   (data (GET h u))))
                          \<lparr>meta_url := Some u\<rparr>\<rparr>))
      \<and> trace (works h sp)
        = before @ [Get u]
          @ (case ifStr (toJson sp) of
               None \<Rightarrow> []
             | Some name \<Rightarrow>
                 [WriteFileSync (name @ ''.json'')
                    (processPage sp (convertAbstractArrayToString h) pg (data (GET h u)))])
          @ (case ifStr (toCsv sp) of
               None \<Rightarrow> []
             | Some name \<Rightarrow>
                 [ConvertToCSV
                    (results (processPage sp (convertAbstractArrayToString h) pg
                                (data (GET h u)))) name])
      \<and> detached (works h sp)
        = Some (handleAllPagesInChunks h u
                  ((GET h u)\<lparr>data := processPage sp (convertAbstractArrayToString h) pg
                                        (data (GET h u))\<rparr>)
                  (toJson sp) (toCsv sp) (AbstractArrayToString sp) k)"
  using assms by (simp add: works_def worksResponse_def Let_def)

text \<open>
  C7.  A chunked drain is to flush its results to the export sink chunk by chunk,
  under the chunk index, and to return no collected results.  The code does otherwise:
  in the chunked branch \<open>works\<close> calls \<open>handleAllPagesInChunks\<close> without \<open>await\<close> or
  \<open>return\<close>, where the branch beside it has \<open>return handleAllPages(...)\<close>, and so goes on
  with the statements of the single page.  A chunked drain (\<open>chunkSize\<close> 100, \<open>toJson\<close>
  \<open>out\<close>) of a collection of one page with two works: whatever the handler is, the call
  writes the page to \<open>out.json\<close>, a file without a chunk index, and returns the page with
  the two works in it; the handler has been started on that page and is not awaited.
\<close>

theorem C7_chunked_returns_first_page:
  "settled (works (specHelpers (serveTable onePage) plainUrl wordsOf 4 chunked)
             (defaultParameters\<lparr>retriveAllPages := Some True, chunkSize := Some 100,
                                  toJson := Some ''out''\<rparr>))
     = Some (Inr \<lparr>meta = \<lparr>meta_count = 2, meta_page = 1, meta_per_page = 25,
                           next_cursor = None,
                           meta_url = Some \<lparr>url_base = ''https://api.openalex.org/works'',
                                            url_per_page = Some 200, url_cursor = ''*'',
                                            url_all = True\<rparr>\<rparr>,
                  results = [indexed, unindexed]\<rparr>)
   \<and> trace (works (specHelpers (serveTable onePage) plainUrl wordsOf 4 chunked)
             (defaultParameters\<lparr>retriveAllPages := Some True, chunkSize := Some 100,
                                  toJson := Some ''out''\<rparr>))
     = [Get \<lparr>url_base = ''https://api.openalex.org/works'', url_per_page = Some 200,
              url_cursor = ''*'', url_all = True\<rparr>,
        WriteFileSync ''out.json''
          \<lparr>meta = \<lparr>meta_count = 2, meta_page = 1, meta_per_page = 25, next_cursor = None,
                    meta_url = None\<rparr>,
           results = [indexed, unindexed]\<rparr>]
   \<and> detached (works (specHelpers (serveTable onePage) plainUrl wordsOf 4 chunked)
                (defaultParameters\<lparr>retriveAllPages := Some True, chunkSize := Some 100,
                                     toJson := Some ''out''\<rparr>))
     = Some (chunked
               \<lparr>url_base = ''https://api.openalex.org/works'', url_per_page = Some 200,
                url_cursor = ''*'', url_all = True\<rparr>
               \<lparr>status = 200, statusText = ''OK'',
                data = \<lparr>meta = \<lparr>meta_count = 2, meta_page = 1, meta_per_page = 25,
                                 next_cursor = None, meta_url = None\<rparr>,
                        results = [indexed, unindexed]\<rparr>\<rparr>
               (Some ''out'') None None 100)"
  by (simp add: works_def worksRequest_def worksResponse_def processPage_def specHelpers_simps
      specHelpers_GET defaultParameters_def specValidate_def truthy_bool_def truthy_num_def
      specGetCursorByPage_def boundedWindow_def ifNum_def ifStr_def specAppendCursorToUrl_def
      plainUrl_def api_url_def serveTable_def onePage_def pageOf_def Let_def)


end
